theory Spec2Isabelle
  imports Complex_Main "HOL-Library.Word"
begin

section \<open>Addresses: Go's net.IP and net.IPAddr\<close>

text \<open>
  The resolver of \<^verbatim>\<open>package dns\<close> stores what the Go standard library hands back:
  a \<^verbatim>\<open>net.IP\<close> is a byte slice (4 bytes, or 16 bytes), a \<^verbatim>\<open>net.IPAddr\<close> a struct
  of an IP and a zone. The family of an address is decided as the standard library
  decides it: \<^verbatim>\<open>To4\<close> yields the 4-byte form of an IPv4 address (also of an
  IPv4-mapped 16-byte one), \<^verbatim>\<open>ipv4only\<close> and \<^verbatim>\<open>ipv6only\<close> are the filters behind the
  networks \<^verbatim>\<open>"ip4"\<close> and \<^verbatim>\<open>"ip6"\<close>.
\<close>

type_synonym IP = "8 word list"

record IPAddr =
  IP :: IP
  Zone :: string

definition To4 :: "IP \<Rightarrow> IP option" where
  "To4 ip =
     (if length ip = 4 then Some ip
      else if length ip = 16 \<and> list_all (\<lambda>b. b = 0) (take 10 ip)
              \<and> ip ! 10 = 0xff \<and> ip ! 11 = 0xff then Some (drop 12 ip)
      else None)"

definition ipv4only :: "IPAddr \<Rightarrow> bool" where
  "ipv4only a = (To4 (IP a) \<noteq> None)"

definition ipv6only :: "IPAddr \<Rightarrow> bool" where
  "ipv6only a = (length (IP a) = 16 \<and> To4 (IP a) = None)"

section \<open>The platform: clock and name resolution\<close>

text \<open>
  \<^verbatim>\<open>Lookup\<close> reads the clock twice and makes one call into \<^verbatim>\<open>net.Resolver\<close>. Both
  belong to the platform, not to the repository, so they are parameters of the model:
  a world \<open>'w\<close> that the calls read and advance, and errors \<open>'e\<close> (Go's \<^verbatim>\<open>error\<close>
  values, never inspected by the code). A library call returns Go's pair of a value and
  an error; \<open>None\<close> is \<^verbatim>\<open>nil\<close>. The \<^verbatim>\<open>net.Resolver\<close> value that \<^verbatim>\<open>Lookup\<close> builds is
  passed to each call: \<open>Dial\<close> maps the address the library wants to dial to the address
  that is dialled, \<open>DialTimeout\<close> is the timeout of the dialer inside the closure. The
  context's deadline is passed as the timeout in nanoseconds.
  \<open>IPString\<close> is \<^verbatim>\<open>net.IP.String\<close>; \<open>TickerRecv\<close> is the blocking receive from the
  channel of a ticker of the given period.
\<close>

record NetResolver =
  PreferGo :: bool
  Dial :: "string \<Rightarrow> string"
  DialTimeout :: int

record ('w, 'e) Platform =
  Now :: "'w \<Rightarrow> int"
  LookupIP :: "NetResolver \<Rightarrow> int \<Rightarrow> string \<Rightarrow> string \<Rightarrow> 'w \<Rightarrow> (IP list \<times> 'e option) \<times> 'w"
  LookupIPAddr :: "NetResolver \<Rightarrow> int \<Rightarrow> string \<Rightarrow> 'w \<Rightarrow> (IPAddr list \<times> 'e option) \<times> 'w"
  IPString :: "IP \<Rightarrow> string"
  TickerRecv :: "int \<Rightarrow> 'w \<Rightarrow> 'w"

section \<open>Metric vectors: the Prometheus client as the code uses it\<close>

text \<open>
  A \<^verbatim>\<open>GaugeVec\<close> or \<^verbatim>\<open>CounterVec\<close> is declared with its label names and holds one
  series per combination of label values, created on first use. \<^verbatim>\<open>With(labels)\<close>
  panics when the label map does not have as many entries as names are declared, when
  a label value is not valid UTF-8, or when a declared name is missing, in this order;
  otherwise it selects the series whose key is the label values in declaration order.
  Gauge values are \<^verbatim>\<open>float64\<close> in the program and exact reals here; a counter that
  was never incremented reads 0.
\<close>

type_synonym Labels = "(string \<times> string) list"

record 'a MetricVec =
  fqName :: string
  variableLabels :: "string list"
  series :: "string list \<rightharpoonup> 'a"

datatype panic =
  InconsistentCardinality | InvalidLabelValue | LabelNameMissing string | NonPositiveInterval

text \<open>
  \<^verbatim>\<open>utf8.ValidString\<close>, the check applied to label values. A string is a list of
  bytes. \<open>first\<close> is the table of the lead bytes above ASCII: the length of the
  sequence and the range accepted for its second byte; every later byte of a sequence
  lies in \<open>0x80..0xBF\<close>.
\<close>

definition first :: "nat \<Rightarrow> (nat \<times> nat \<times> nat) option" where
  "first b =
     (if 0xC2 \<le> b \<and> b \<le> 0xDF then Some (2, 0x80, 0xBF)
      else if b = 0xE0 then Some (3, 0xA0, 0xBF)
      else if 0xE1 \<le> b \<and> b \<le> 0xEC then Some (3, 0x80, 0xBF)
      else if b = 0xED then Some (3, 0x80, 0x9F)
      else if 0xEE \<le> b \<and> b \<le> 0xEF then Some (3, 0x80, 0xBF)
      else if b = 0xF0 then Some (4, 0x90, 0xBF)
      else if 0xF1 \<le> b \<and> b \<le> 0xF3 then Some (4, 0x80, 0xBF)
      else if b = 0xF4 then Some (4, 0x80, 0x8F)
      else None)"

fun valid_bytes :: "nat list \<Rightarrow> bool" where
  "valid_bytes [] = True"
| "valid_bytes (si # rest) =
     (if si < 0x80 then valid_bytes rest
      else case first si of
        None \<Rightarrow> False
      | Some (n, lo, hi) \<Rightarrow>
          if length (si # rest) < n then False
          else if rest ! 0 < lo \<or> hi < rest ! 0 then False
          else if n = 2 then valid_bytes (drop 1 rest)
          else if rest ! 1 < 0x80 \<or> 0xBF < rest ! 1 then False
          else if n = 3 then valid_bytes (drop 2 rest)
          else if rest ! 2 < 0x80 \<or> 0xBF < rest ! 2 then False
          else valid_bytes (drop 3 rest))"

definition ValidString :: "string \<Rightarrow> bool" where
  "ValidString s = valid_bytes (map of_char s)"

definition NewGaugeVec :: "string \<Rightarrow> string list \<Rightarrow> real MetricVec" where
  "NewGaugeVec name labelNames = \<lparr>fqName = name, variableLabels = labelNames, series = Map.empty\<rparr>"

definition NewCounterVec :: "string \<Rightarrow> string list \<Rightarrow> nat MetricVec" where
  "NewCounterVec name labelNames = \<lparr>fqName = name, variableLabels = labelNames, series = Map.empty\<rparr>"

fun hashLabels :: "Labels \<Rightarrow> string list \<Rightarrow> panic + string list" where
  "hashLabels labels [] = Inr []"
| "hashLabels labels (name # names) =
     (case map_of labels name of
        None \<Rightarrow> Inl (LabelNameMissing name)
      | Some val \<Rightarrow> (case hashLabels labels names of
                      Inl p \<Rightarrow> Inl p
                    | Inr vals \<Rightarrow> Inr (val # vals)))"

definition With :: "'a MetricVec \<Rightarrow> Labels \<Rightarrow> panic + string list" where
  "With v labels =
     (if length labels \<noteq> length (variableLabels v) then Inl InconsistentCardinality
      else if \<not> list_all (\<lambda>(name, val). ValidString val) labels then Inl InvalidLabelValue
      else hashLabels labels (variableLabels v))"

definition GaugeSet :: "real MetricVec \<Rightarrow> Labels \<Rightarrow> real \<Rightarrow> panic + real MetricVec" where
  "GaugeSet v labels x =
     (case With v labels of
        Inl p \<Rightarrow> Inl p
      | Inr key \<Rightarrow> Inr (v\<lparr>series := (series v)(key \<mapsto> x)\<rparr>))"

definition counterValue :: "nat MetricVec \<Rightarrow> string list \<Rightarrow> nat" where
  "counterValue v key = (case series v key of None \<Rightarrow> 0 | Some n \<Rightarrow> n)"

definition CounterInc :: "nat MetricVec \<Rightarrow> Labels \<Rightarrow> panic + nat MetricVec" where
  "CounterInc v labels =
     (case With v labels of
        Inl p \<Rightarrow> Inl p
      | Inr key \<Rightarrow> Inr (v\<lparr>series := (series v)(key \<mapsto> counterValue v key + 1)\<rparr>))"

section \<open>Package dns: Result, Resolver, updateMetrics, Lookup\<close>

record 'e Result =
  FQDN :: string
  RecordType :: string
  DNSServer :: string
  IPs :: "IPAddr list"
  Duration :: int
  Success :: bool
  Error :: "'e option"

text \<open>
  The \<^verbatim>\<open>Resolver\<close> struct holds pointers to the five vectors; they are the only
  state the package mutates, so the record of the five vectors is the state that
  the operations take and return.
\<close>

record Resolver =
  responseTime :: "real MetricVec"
  resolutionSuccess :: "real MetricVec"
  resolvedIpCount :: "real MetricVec"
  queryTotal :: "nat MetricVec"
  resolvedIpAddress :: "real MetricVec"

definition NewResolver ::
  "real MetricVec \<Rightarrow> real MetricVec \<Rightarrow> real MetricVec \<Rightarrow> nat MetricVec \<Rightarrow> real MetricVec \<Rightarrow> Resolver" where
  "NewResolver responseTime' resolutionSuccess' resolvedIpCount' queryTotal' resolvedIpAddress' =
     \<lparr>responseTime = responseTime', resolutionSuccess = resolutionSuccess',
      resolvedIpCount = resolvedIpCount', queryTotal = queryTotal',
      resolvedIpAddress = resolvedIpAddress'\<rparr>"

text \<open>\<^verbatim>\<open>Duration.Seconds()\<close>: nanoseconds to seconds.\<close>

definition Seconds :: "int \<Rightarrow> real" where
  "Seconds d = real_of_int d / 1000000000"

definition labels_of :: "'e Result \<Rightarrow> Labels" where
  "labels_of result =
     [(''fqdn'', FQDN result), (''record_type'', RecordType result), (''dns_server'', DNSServer result)]"

definition status_labels :: "'e Result \<Rightarrow> string \<Rightarrow> Labels" where
  "status_labels result status =
     [(''fqdn'', FQDN result), (''record_type'', RecordType result), (''dns_server'', DNSServer result),
      (''status'', status)]"

definition ipLabels :: "'e Result \<Rightarrow> string \<Rightarrow> Labels" where
  "ipLabels result ip_address =
     [(''fqdn'', FQDN result), (''record_type'', RecordType result), (''dns_server'', DNSServer result),
      (''ip_address'', ip_address)]"

text \<open>The loop of \<^verbatim>\<open>updateMetrics\<close> over the resolved addresses.\<close>

fun mark_ips :: "(IP \<Rightarrow> string) \<Rightarrow> 'e Result \<Rightarrow> IPAddr list \<Rightarrow> real MetricVec \<Rightarrow> panic + real MetricVec" where
  "mark_ips str result [] v = Inr v"
| "mark_ips str result (ip # ips) v =
     (case GaugeSet v (ipLabels result (str (IP ip))) 1 of
        Inl p \<Rightarrow> Inl p
      | Inr v' \<Rightarrow> mark_ips str result ips v')"

definition updateMetrics :: "('w, 'e) Platform \<Rightarrow> Resolver \<Rightarrow> 'e Result \<Rightarrow> panic + Resolver" where
  "updateMetrics env r result =
     (case GaugeSet (responseTime r) (labels_of result) (Seconds (Duration result)) of
        Inl p \<Rightarrow> Inl p
      | Inr rt \<Rightarrow>
          if \<not> Success result then
            (case GaugeSet (resolutionSuccess r) (labels_of result) 0 of
               Inl p \<Rightarrow> Inl p
             | Inr rs \<Rightarrow>
                 (case CounterInc (queryTotal r) (status_labels result ''failure'') of
                    Inl p \<Rightarrow> Inl p
                  | Inr qt \<Rightarrow>
                      Inr (r\<lparr>responseTime := rt, resolutionSuccess := rs, queryTotal := qt\<rparr>)))
          else
            (case GaugeSet (resolutionSuccess r) (labels_of result) 1 of
               Inl p \<Rightarrow> Inl p
             | Inr rs \<Rightarrow>
                 (case GaugeSet (resolvedIpCount r) (labels_of result) (real (length (IPs result))) of
                    Inl p \<Rightarrow> Inl p
                  | Inr rc \<Rightarrow>
                      (case CounterInc (queryTotal r) (status_labels result ''success'') of
                         Inl p \<Rightarrow> Inl p
                       | Inr qt \<Rightarrow>
                           (case mark_ips (IPString env) result (IPs result) (resolvedIpAddress r) of
                              Inl p \<Rightarrow> Inl p
                            | Inr ra \<Rightarrow>
                                Inr (r\<lparr>responseTime := rt, resolutionSuccess := rs,
                                       resolvedIpCount := rc, queryTotal := qt,
                                       resolvedIpAddress := ra\<rparr>))))))"

text \<open>
  The resolver value of \<^verbatim>\<open>Lookup\<close>: with a server given, every connection goes to
  that server on port 53, whatever address the library asked for.
\<close>

definition custom_resolver :: "string \<Rightarrow> NetResolver" where
  "custom_resolver dnsServer =
     \<lparr>PreferGo = True,
      Dial = (\<lambda>address. if dnsServer \<noteq> '''' then dnsServer @ '':53'' else address),
      DialTimeout = 5 * 1000000000\<rparr>"

text \<open>The \<^verbatim>\<open>switch recordType\<close> of \<^verbatim>\<open>Lookup\<close>: the addresses and the error it leaves.\<close>

definition lookup_switch ::
  "('w, 'e) Platform \<Rightarrow> NetResolver \<Rightarrow> int \<Rightarrow> string \<Rightarrow> string \<Rightarrow> 'w \<Rightarrow> (IPAddr list \<times> 'e option) \<times> 'w" where
  "lookup_switch env resolver timeout recordType fqdn w =
     (if recordType = ''A'' then
        (case LookupIP env resolver timeout ''ip4'' fqdn w of
           ((ipv4s, lookupErr), w') \<Rightarrow>
             ((if lookupErr = None then map (\<lambda>ip. \<lparr>IP = ip, Zone = ''''\<rparr>) ipv4s else [], lookupErr), w'))
      else if recordType = ''AAAA'' then
        (case LookupIP env resolver timeout ''ip6'' fqdn w of
           ((ipv6s, lookupErr), w') \<Rightarrow>
             ((if lookupErr = None then map (\<lambda>ip. \<lparr>IP = ip, Zone = ''''\<rparr>) ipv6s else [], lookupErr), w'))
      else LookupIPAddr env resolver timeout fqdn w)"

definition Lookup ::
  "('w, 'e) Platform \<Rightarrow> Resolver \<Rightarrow> string \<Rightarrow> string \<Rightarrow> string \<Rightarrow> int \<Rightarrow> 'w
     \<Rightarrow> panic + ('e Result \<times> Resolver \<times> 'w)" where
  "Lookup env r fqdn dnsServer recordType timeout w =
     (let start = Now env w in
      case lookup_switch env (custom_resolver dnsServer) timeout recordType fqdn w of
        ((ips, err), w') \<Rightarrow>
          (let duration = Now env w' - start;
               result = \<lparr>FQDN = fqdn, RecordType = recordType, DNSServer = dnsServer, IPs = ips,
                         Duration = duration, Success = (err = None), Error = err\<rparr>
           in case updateMetrics env r result of
                Inl p \<Rightarrow> Inl p
              | Inr r' \<Rightarrow> Inr (result, r', w')))"

section \<open>Package main: the declared vectors\<close>

definition dnsResponseTime :: "real MetricVec" where
  "dnsResponseTime = NewGaugeVec ''dns_response_time_seconds'' [''fqdn'', ''record_type'', ''dns_server'']"

definition dnsResolutionSuccess :: "real MetricVec" where
  "dnsResolutionSuccess = NewGaugeVec ''dns_resolution_success'' [''fqdn'', ''record_type'', ''dns_server'']"

definition dnsResolvedIpCount :: "real MetricVec" where
  "dnsResolvedIpCount = NewGaugeVec ''dns_resolved_ip_count'' [''fqdn'', ''record_type'', ''dns_server'']"

definition dnsQueryTotal :: "nat MetricVec" where
  "dnsQueryTotal = NewCounterVec ''dns_query_total'' [''fqdn'', ''record_type'', ''dns_server'', ''status'']"

definition dnsResolvedIpAddress :: "real MetricVec" where
  "dnsResolvedIpAddress =
     NewGaugeVec ''dns_resolved_ip_address'' [''fqdn'', ''record_type'', ''dns_server'', ''ip_address'']"

definition main_resolver :: Resolver where
  "main_resolver =
     NewResolver dnsResponseTime dnsResolutionSuccess dnsResolvedIpCount dnsQueryTotal dnsResolvedIpAddress"

text \<open>
  The label names of a resolver's vectors are those that \<^verbatim>\<open>main.go\<close> declares. It
  holds of \<open>main_resolver\<close> and every operation keeps it.
\<close>

definition declared_labels :: "Resolver \<Rightarrow> bool" where
  "declared_labels r =
     (variableLabels (responseTime r) = variableLabels dnsResponseTime
      \<and> variableLabels (resolutionSuccess r) = variableLabels dnsResolutionSuccess
      \<and> variableLabels (resolvedIpCount r) = variableLabels dnsResolvedIpCount
      \<and> variableLabels (queryTotal r) = variableLabels dnsQueryTotal
      \<and> variableLabels (resolvedIpAddress r) = variableLabels dnsResolvedIpAddress)"

text \<open>
  The key of the series that a result's three labels select, and the value of the
  \<^verbatim>\<open>status\<close> label that \<^verbatim>\<open>updateMetrics\<close> uses for it.
\<close>

definition series_key :: "'e Result \<Rightarrow> string list" where
  "series_key result = [FQDN result, RecordType result, DNSServer result]"

definition status_of :: "'e Result \<Rightarrow> string" where
  "status_of result = (if Success result then ''success'' else ''failure'')"

text \<open>
  The label values that \<^verbatim>\<open>updateMetrics\<close> hands to the client for a result are all
  valid UTF-8: the three labels of the result and, for a successful result, the
  rendering of each of its addresses.
\<close>

definition accepted :: "('w, 'e) Platform \<Rightarrow> 'e Result \<Rightarrow> bool" where
  "accepted env result =
     (ValidString (FQDN result) \<and> ValidString (RecordType result) \<and> ValidString (DNSServer result)
      \<and> (Success result \<longrightarrow> list_all (\<lambda>a. ValidString (IPString env (IP a))) (IPs result)))"

text \<open>
  A sequence of metric updates, one \<^verbatim>\<open>updateMetrics\<close> call per result, in order.
\<close>

fun record_all :: "('w, 'e) Platform \<Rightarrow> Resolver \<Rightarrow> 'e Result list \<Rightarrow> panic + Resolver" where
  "record_all env r [] = Inr r"
| "record_all env r (result # results) =
     (case updateMetrics env r result of
        Inl p \<Rightarrow> Inl p
      | Inr r' \<Rightarrow> record_all env r' results)"

section \<open>Package config: the configuration structs\<close>

text \<open>
  Durations are nanoseconds. The field \<^verbatim>\<open>FQDN\<close> of \<^verbatim>\<open>Target\<close> is \<open>Target_FQDN\<close>
  here, the name \<open>FQDN\<close> being the field of \<open>Result\<close>.
\<close>

record ServerConfig =
  Port :: int

record MonitorConfig =
  Interval :: int
  Timeout :: int

record DNSServer =
  Name :: string
  Address :: string

record Target =
  Target_FQDN :: string
  RecordTypes :: "string list"

record Config =
  Server :: ServerConfig
  Monitoring :: MonitorConfig
  DNSServers :: "DNSServer list"
  Targets :: "Target list"

section \<open>Package main: the monitoring goroutine\<close>

text \<open>
  The goroutine's state: the platform's world, the vectors behind the resolver, and the
  lines written with \<^verbatim>\<open>log.Printf\<close>. \<open>resolve_one\<close> is the body of the innermost
  loop; the three \<open>range_\<close> functions are the three nested \<^verbatim>\<open>for ... range\<close> loops;
  \<open>tick\<close> is one pass through them. The outer \<^verbatim>\<open>for\<close> never returns:
  \<open>iterations\<close> runs its body a given number of times, each pass followed by the
  receive from the ticker, and \<open>monitoring\<close> starts with \<^verbatim>\<open>time.NewTicker\<close>, which
  panics on an interval that is not positive.
\<close>

record 'w Monitor =
  world :: 'w
  resolver :: Resolver
  logged :: "string list"

definition log_line :: "Target \<Rightarrow> string \<Rightarrow> DNSServer \<Rightarrow> string" where
  "log_line target recordType dnsServer =
     ''Resolving '' @ Target_FQDN target @ '' ('' @ recordType @ '') via '' @ Name dnsServer
       @ '' ('' @ Address dnsServer @ '')''"

definition resolve_one ::
  "('w, 'e) Platform \<Rightarrow> Config \<Rightarrow> Target \<Rightarrow> DNSServer \<Rightarrow> string \<Rightarrow> 'w Monitor \<Rightarrow> panic + 'w Monitor" where
  "resolve_one env cfg target dnsServer recordType st =
     (let out = logged st @ [log_line target recordType dnsServer] in
      case Lookup env (resolver st) (Target_FQDN target) (Address dnsServer) recordType
             (Timeout (Monitoring cfg)) (world st) of
        Inl p \<Rightarrow> Inl p
      | Inr (result, r', w') \<Rightarrow> Inr \<lparr>world = w', resolver = r', logged = out\<rparr>)"

fun range_recordTypes ::
  "('w, 'e) Platform \<Rightarrow> Config \<Rightarrow> Target \<Rightarrow> DNSServer \<Rightarrow> string list \<Rightarrow> 'w Monitor \<Rightarrow> panic + 'w Monitor" where
  "range_recordTypes env cfg target dnsServer [] st = Inr st"
| "range_recordTypes env cfg target dnsServer (recordType # rest) st =
     (case resolve_one env cfg target dnsServer recordType st of
        Inl p \<Rightarrow> Inl p
      | Inr st' \<Rightarrow> range_recordTypes env cfg target dnsServer rest st')"

fun range_DNSServers ::
  "('w, 'e) Platform \<Rightarrow> Config \<Rightarrow> Target \<Rightarrow> DNSServer list \<Rightarrow> 'w Monitor \<Rightarrow> panic + 'w Monitor" where
  "range_DNSServers env cfg target [] st = Inr st"
| "range_DNSServers env cfg target (dnsServer # rest) st =
     (case range_recordTypes env cfg target dnsServer (RecordTypes target) st of
        Inl p \<Rightarrow> Inl p
      | Inr st' \<Rightarrow> range_DNSServers env cfg target rest st')"

fun range_Targets ::
  "('w, 'e) Platform \<Rightarrow> Config \<Rightarrow> Target list \<Rightarrow> 'w Monitor \<Rightarrow> panic + 'w Monitor" where
  "range_Targets env cfg [] st = Inr st"
| "range_Targets env cfg (target # rest) st =
     (case range_DNSServers env cfg target (DNSServers cfg) st of
        Inl p \<Rightarrow> Inl p
      | Inr st' \<Rightarrow> range_Targets env cfg rest st')"

definition tick :: "('w, 'e) Platform \<Rightarrow> Config \<Rightarrow> 'w Monitor \<Rightarrow> panic + 'w Monitor" where
  "tick env cfg st = range_Targets env cfg (Targets cfg) st"

fun iterations :: "('w, 'e) Platform \<Rightarrow> Config \<Rightarrow> nat \<Rightarrow> 'w Monitor \<Rightarrow> panic + 'w Monitor" where
  "iterations env cfg 0 st = Inr st"
| "iterations env cfg (Suc n) st =
     (case tick env cfg st of
        Inl p \<Rightarrow> Inl p
      | Inr st' \<Rightarrow>
          iterations env cfg n (st'\<lparr>world := TickerRecv env (Interval (Monitoring cfg)) (world st')\<rparr>))"

definition monitoring :: "('w, 'e) Platform \<Rightarrow> Config \<Rightarrow> nat \<Rightarrow> 'w Monitor \<Rightarrow> panic + 'w Monitor" where
  "monitoring env cfg n st =
     (if Interval (Monitoring cfg) \<le> 0 then Inl NonPositiveInterval else iterations env cfg n st)"

text \<open>
  The enumeration in the specification's words: targets outermost, servers in the
  middle, record types innermost; \<open>resolve_each\<close> handles a list of triples one
  after the other, each with one \<open>Lookup\<close> (which records its own result) before the
  next, and \<open>log_lines\<close> are the lines one pass writes. \<open>valid_config\<close> says that the
  strings of the configuration that become label values are valid UTF-8.
\<close>

definition triples :: "Config \<Rightarrow> (Target \<times> DNSServer \<times> string) list" where
  "triples cfg =
     concat (map (\<lambda>target.
       concat (map (\<lambda>dnsServer.
         map (\<lambda>recordType. (target, dnsServer, recordType)) (RecordTypes target))
       (DNSServers cfg)))
     (Targets cfg))"

fun resolve_each ::
  "('w, 'e) Platform \<Rightarrow> Config \<Rightarrow> (Target \<times> DNSServer \<times> string) list \<Rightarrow> 'w Monitor \<Rightarrow> panic + 'w Monitor" where
  "resolve_each env cfg [] st = Inr st"
| "resolve_each env cfg ((target, dnsServer, recordType) # rest) st =
     (case Lookup env (resolver st) (Target_FQDN target) (Address dnsServer) recordType
             (Timeout (Monitoring cfg)) (world st) of
        Inl p \<Rightarrow> Inl p
      | Inr (result, r', w') \<Rightarrow>
          resolve_each env cfg rest
            \<lparr>world = w', resolver = r',
             logged = logged st @ [log_line target recordType dnsServer]\<rparr>)"

definition log_lines :: "Config \<Rightarrow> string list" where
  "log_lines cfg = map (\<lambda>(target, dnsServer, recordType). log_line target recordType dnsServer) (triples cfg)"

definition valid_config :: "Config \<Rightarrow> bool" where
  "valid_config cfg =
     (list_all (\<lambda>target. ValidString (Target_FQDN target) \<and> list_all ValidString (RecordTypes target))
        (Targets cfg)
      \<and> list_all (\<lambda>dnsServer. ValidString (Address dnsServer)) (DNSServers cfg))"

section \<open>A fixed platform and configuration for concrete runs\<close>

text \<open>
  A world that is only a clock: \<^verbatim>\<open>example.com\<close> resolves to one IPv4 and one IPv6
  address, every other name fails; a receive from the ticker returns at the next
  multiple of its period. \<open>busy_cfg\<close> is \<open>example_cfg\<close> with an interval of 10 ms,
  shorter than one pass takes on this platform. \<open>warm_resolver\<close> is \<open>main_resolver\<close>
  after one failed lookup of \<^verbatim>\<open>nxdomain-test.invalid\<close>.
\<close>

definition example_v4 :: IP where
  "example_v4 = [93, 184, 216, 34]"

definition example_v6 :: IP where
  "example_v6 = [0x26, 0x06, 0x28, 0x00, 0x02, 0x20, 0x00, 0x01, 0x02, 0x48, 0x18, 0x93, 0x25, 0xc8, 0x19, 0x46]"

definition example_net :: "(int, string) Platform" where
  "example_net =
     \<lparr>Now = (\<lambda>w. w),
      LookupIP = (\<lambda>resolver timeout network host w.
        if host = ''example.com'' \<and> network = ''ip4'' then (([example_v4], None), w + 20000000)
        else if host = ''example.com'' \<and> network = ''ip6'' then (([example_v6], None), w + 25000000)
        else (([], Some ''no such host''), w + 5000000)),
      LookupIPAddr = (\<lambda>resolver timeout host w.
        if host = ''example.com''
        then (([\<lparr>IP = example_v4, Zone = ''''\<rparr>, \<lparr>IP = example_v6, Zone = ''''\<rparr>], None), w + 30000000)
        else (([], Some ''no such host''), w + 5000000)),
      IPString = (\<lambda>ip. if ip = example_v4 then ''93.184.216.34''
                         else if ip = example_v6 then ''2606:2800:220:1:248:1893:25c8:1946''
                         else ''?''),
      TickerRecv = (\<lambda>period w. w + period - w mod period)\<rparr>"

definition example_cfg :: Config where
  "example_cfg =
     \<lparr>Server = \<lparr>Port = 9653\<rparr>,
      Monitoring = \<lparr>Interval = 30000000000, Timeout = 10000000000\<rparr>,
      DNSServers = [\<lparr>Name = ''google'', Address = ''8.8.8.8''\<rparr>],
      Targets = [\<lparr>Target_FQDN = ''example.com'', RecordTypes = [''A'']\<rparr>,
                 \<lparr>Target_FQDN = ''nxdomain-test.invalid'', RecordTypes = [''A'']\<rparr>]\<rparr>"

definition example_start :: "int Monitor" where
  "example_start = \<lparr>world = 0, resolver = main_resolver, logged = []\<rparr>"

definition ok_result :: "string Result" where
  "ok_result = \<lparr>FQDN = ''example.com'', RecordType = ''A'', DNSServer = ''8.8.8.8'',
                 IPs = [\<lparr>IP = example_v4, Zone = ''''\<rparr>], Duration = 20000000, Success = True, Error = None\<rparr>"

definition failed_result :: "string Result" where
  "failed_result = \<lparr>FQDN = ''example.com'', RecordType = ''A'', DNSServer = ''8.8.8.8'',
                     IPs = [], Duration = 2000000000, Success = False, Error = Some ''i/o timeout''\<rparr>"

definition busy_cfg :: Config where
  "busy_cfg = example_cfg\<lparr>Monitoring := \<lparr>Interval = 10000000, Timeout = 10000000000\<rparr>\<rparr>"

definition warm_resolver :: Resolver where
  "warm_resolver =
     main_resolver
       \<lparr>responseTime := dnsResponseTime
          \<lparr>series := [[''nxdomain-test.invalid'', ''A'', ''8.8.8.8''] \<mapsto> 1 / 200]\<rparr>,
        resolutionSuccess := dnsResolutionSuccess
          \<lparr>series := [[''nxdomain-test.invalid'', ''A'', ''8.8.8.8''] \<mapsto> 0]\<rparr>,
        queryTotal := dnsQueryTotal
          \<lparr>series := [[''nxdomain-test.invalid'', ''A'', ''8.8.8.8'', ''failure''] \<mapsto> 1]\<rparr>\<rparr>"

section \<open>Selecting series\<close>

lemma ValidString_status: "ValidString ''success''" "ValidString ''failure''"
  by (simp_all add: ValidString_def)

lemma With_labels_of:
  "variableLabels v = [''fqdn'', ''record_type'', ''dns_server'']
   \<Longrightarrow> With v (labels_of result) =
       (if ValidString (FQDN result) \<and> ValidString (RecordType result) \<and> ValidString (DNSServer result)
        then Inr (series_key result) else Inl InvalidLabelValue)"
  by (simp add: With_def labels_of_def series_key_def)

lemma With_status_labels:
  "variableLabels v = [''fqdn'', ''record_type'', ''dns_server'', ''status'']
   \<Longrightarrow> With v (status_labels result s) =
       (if ValidString (FQDN result) \<and> ValidString (RecordType result) \<and> ValidString (DNSServer result)
           \<and> ValidString s
        then Inr (series_key result @ [s]) else Inl InvalidLabelValue)"
  by (simp add: With_def status_labels_def series_key_def)

lemma With_ipLabels:
  "variableLabels v = [''fqdn'', ''record_type'', ''dns_server'', ''ip_address'']
   \<Longrightarrow> With v (ipLabels result a) =
       (if ValidString (FQDN result) \<and> ValidString (RecordType result) \<and> ValidString (DNSServer result)
           \<and> ValidString a
        then Inr (series_key result @ [a]) else Inl InvalidLabelValue)"
  by (simp add: With_def ipLabels_def series_key_def)

lemma GaugeSet_labels_of:
  "variableLabels v = [''fqdn'', ''record_type'', ''dns_server'']
   \<Longrightarrow> GaugeSet v (labels_of result) x =
       (if ValidString (FQDN result) \<and> ValidString (RecordType result) \<and> ValidString (DNSServer result)
        then Inr (v\<lparr>series := (series v)(series_key result \<mapsto> x)\<rparr>) else Inl InvalidLabelValue)"
  by (simp add: GaugeSet_def With_labels_of)

lemma CounterInc_status_labels:
  "variableLabels v = [''fqdn'', ''record_type'', ''dns_server'', ''status'']
   \<Longrightarrow> CounterInc v (status_labels result s) =
       (if ValidString (FQDN result) \<and> ValidString (RecordType result) \<and> ValidString (DNSServer result)
           \<and> ValidString s
        then Inr (v\<lparr>series := (series v)(series_key result @ [s] \<mapsto> counterValue v (series_key result @ [s]) + 1)\<rparr>)
        else Inl InvalidLabelValue)"
  by (simp add: CounterInc_def With_status_labels)

lemma GaugeSet_ipLabels:
  "variableLabels v = [''fqdn'', ''record_type'', ''dns_server'', ''ip_address'']
   \<Longrightarrow> GaugeSet v (ipLabels result a) x =
       (if ValidString (FQDN result) \<and> ValidString (RecordType result) \<and> ValidString (DNSServer result)
           \<and> ValidString a
        then Inr (v\<lparr>series := (series v)(series_key result @ [a] \<mapsto> x)\<rparr>) else Inl InvalidLabelValue)"
  by (simp add: GaugeSet_def With_ipLabels)

lemma mark_ips_accepted:
  assumes "variableLabels v = [''fqdn'', ''record_type'', ''dns_server'', ''ip_address'']"
    and "ValidString (FQDN result)" "ValidString (RecordType result)" "ValidString (DNSServer result)"
    and "list_all (\<lambda>a. ValidString (str (IP a))) ips"
  shows "\<exists>v'. mark_ips str result ips v = Inr v' \<and> variableLabels v' = variableLabels v
        \<and> (\<forall>k. take 3 k \<noteq> series_key result \<longrightarrow> series v' k = series v k)"
  using assms(1,5)
proof (induction ips arbitrary: v)
  case Nil
  then show ?case by simp
next
  case (Cons ip ips)
  let ?v1 = "v\<lparr>series := (series v)(series_key result @ [str (IP ip)] \<mapsto> 1)\<rparr>"
  have step: "GaugeSet v (ipLabels result (str (IP ip))) 1 = Inr ?v1"
    using Cons.prems assms(2-4) by (simp add: GaugeSet_ipLabels)
  have "variableLabels ?v1 = [''fqdn'', ''record_type'', ''dns_server'', ''ip_address'']"
    using Cons.prems by simp
  moreover have "list_all (\<lambda>a. ValidString (str (IP a))) ips"
    using Cons.prems by simp
  ultimately obtain v' where
    v': "mark_ips str result ips ?v1 = Inr v'" "variableLabels v' = variableLabels ?v1"
    "\<forall>k. take 3 k \<noteq> series_key result \<longrightarrow> series v' k = series ?v1 k"
    using Cons.IH by blast
  have "\<forall>k. take 3 k \<noteq> series_key result \<longrightarrow> series v' k = series v k"
    using v'(3) by (auto simp: series_key_def)
  with v' step show ?case by simp
qed

lemma mark_ips_rejected:
  assumes "variableLabels v = [''fqdn'', ''record_type'', ''dns_server'', ''ip_address'']"
    and "\<not> list_all (\<lambda>a. ValidString (str (IP a))) ips"
  shows "mark_ips str result ips v = Inl InvalidLabelValue"
  using assms
proof (induction ips arbitrary: v)
  case Nil
  then show ?case by simp
next
  case (Cons ip ips)
  show ?case
  proof (cases "ValidString (FQDN result) \<and> ValidString (RecordType result)
                \<and> ValidString (DNSServer result) \<and> ValidString (str (IP ip))")
    case True
    let ?v1 = "v\<lparr>series := (series v)(series_key result @ [str (IP ip)] \<mapsto> 1)\<rparr>"
    have step: "GaugeSet v (ipLabels result (str (IP ip))) 1 = Inr ?v1"
      using Cons.prems(1) True by (simp add: GaugeSet_ipLabels)
    have "variableLabels ?v1 = [''fqdn'', ''record_type'', ''dns_server'', ''ip_address'']"
      using Cons.prems(1) by simp
    moreover have "\<not> list_all (\<lambda>a. ValidString (str (IP a))) ips"
      using Cons.prems(2) True by simp
    ultimately have "mark_ips str result ips ?v1 = Inl InvalidLabelValue"
      by (rule Cons.IH)
    with step show ?thesis by simp
  next
    case False
    then have "GaugeSet v (ipLabels result (str (IP ip))) 1 = Inl InvalidLabelValue"
      using Cons.prems(1) by (simp add: GaugeSet_ipLabels)
    then show ?thesis by simp
  qed
qed

lemma declared_labels_main: "declared_labels main_resolver"
  by (simp add: declared_labels_def main_resolver_def NewResolver_def)

lemma declared_labelsD:
  assumes "declared_labels r"
  shows "variableLabels (responseTime r) = [''fqdn'', ''record_type'', ''dns_server'']"
    and "variableLabels (resolutionSuccess r) = [''fqdn'', ''record_type'', ''dns_server'']"
    and "variableLabels (resolvedIpCount r) = [''fqdn'', ''record_type'', ''dns_server'']"
    and "variableLabels (queryTotal r) = [''fqdn'', ''record_type'', ''dns_server'', ''status'']"
    and "variableLabels (resolvedIpAddress r) = [''fqdn'', ''record_type'', ''dns_server'', ''ip_address'']"
  using assms
  by (simp_all add: declared_labels_def dnsResponseTime_def dnsResolutionSuccess_def
      dnsResolvedIpCount_def dnsQueryTotal_def dnsResolvedIpAddress_def NewGaugeVec_def NewCounterVec_def)

section \<open>The effect of updateMetrics\<close>

text \<open>
  With the vectors declared as in \<^verbatim>\<open>main.go\<close>, \<open>updateMetrics\<close> returns exactly for
  the results that are \<open>accepted\<close>; for any other result it panics at the first
  label value that is not valid UTF-8.
\<close>

lemma updateMetrics_rejected:
  assumes "declared_labels r" and "\<not> accepted env result"
  shows "updateMetrics env r result = Inl InvalidLabelValue"
proof (cases "ValidString (FQDN result) \<and> ValidString (RecordType result) \<and> ValidString (DNSServer result)")
  case False
  then have "GaugeSet (responseTime r) (labels_of result) (Seconds (Duration result))
             = Inl InvalidLabelValue"
    using declared_labelsD(1) [OF assms(1)] by (simp only: GaugeSet_labels_of if_False)
  then show ?thesis
    by (simp add: updateMetrics_def)
next
  case True
  with assms(2) have s: "Success result"
    and bad: "\<not> list_all (\<lambda>a. ValidString (IPString env (IP a))) (IPs result)"
    by (auto simp: accepted_def)
  note d = declared_labelsD [OF assms(1)]
  from mark_ips_rejected [OF d(5) bad, of result] True s d show ?thesis
    by (simp add: updateMetrics_def GaugeSet_labels_of CounterInc_status_labels ValidString_status)
qed

lemma updateMetrics_failure:
  assumes "declared_labels r" and "accepted env result" and "\<not> Success result"
  shows "updateMetrics env r result =
     Inr (r\<lparr>responseTime := (responseTime r)\<lparr>series := (series (responseTime r))(series_key result \<mapsto> Seconds (Duration result))\<rparr>,
            resolutionSuccess := (resolutionSuccess r)\<lparr>series := (series (resolutionSuccess r))(series_key result \<mapsto> 0)\<rparr>,
            queryTotal := (queryTotal r)\<lparr>series := (series (queryTotal r))
               (series_key result @ [''failure''] \<mapsto> counterValue (queryTotal r) (series_key result @ [''failure'']) + 1)\<rparr>\<rparr>)"
  using assms(2,3) declared_labelsD [OF assms(1)]
  by (simp add: updateMetrics_def accepted_def GaugeSet_labels_of CounterInc_status_labels ValidString_status)

lemma updateMetrics_success:
  assumes "declared_labels r" and "accepted env result" and "Success result"
  shows "\<exists>ra. updateMetrics env r result =
     Inr (r\<lparr>responseTime := (responseTime r)\<lparr>series := (series (responseTime r))(series_key result \<mapsto> Seconds (Duration result))\<rparr>,
            resolutionSuccess := (resolutionSuccess r)\<lparr>series := (series (resolutionSuccess r))(series_key result \<mapsto> 1)\<rparr>,
            resolvedIpCount := (resolvedIpCount r)\<lparr>series := (series (resolvedIpCount r))(series_key result \<mapsto> real (length (IPs result)))\<rparr>,
            queryTotal := (queryTotal r)\<lparr>series := (series (queryTotal r))
               (series_key result @ [''success''] \<mapsto> counterValue (queryTotal r) (series_key result @ [''success'']) + 1)\<rparr>,
            resolvedIpAddress := ra\<rparr>)
     \<and> variableLabels ra = variableLabels (resolvedIpAddress r)
     \<and> (\<forall>k. take 3 k \<noteq> series_key result \<longrightarrow> series ra k = series (resolvedIpAddress r) k)"
proof -
  note d = declared_labelsD [OF assms(1)]
  have v: "ValidString (FQDN result)" "ValidString (RecordType result)" "ValidString (DNSServer result)"
    and ips: "list_all (\<lambda>a. ValidString (IPString env (IP a))) (IPs result)"
    using assms(2,3) by (simp_all add: accepted_def)
  from mark_ips_accepted [OF d(5) v ips]
  obtain ra where ra: "mark_ips (IPString env) result (IPs result) (resolvedIpAddress r) = Inr ra"
    "variableLabels ra = variableLabels (resolvedIpAddress r)"
    "\<forall>k. take 3 k \<noteq> series_key result \<longrightarrow> series ra k = series (resolvedIpAddress r) k"
    by blast
  show ?thesis
    using assms(3) d ra v
    by (intro exI [of _ ra])
       (simp add: updateMetrics_def GaugeSet_labels_of CounterInc_status_labels ValidString_status)
qed

lemma updateMetrics_accepted:
  assumes "declared_labels r" and "accepted env result"
  shows "\<exists>r'. updateMetrics env r result = Inr r' \<and> declared_labels r'
     \<and> series (responseTime r') = (series (responseTime r))(series_key result \<mapsto> Seconds (Duration result))
     \<and> series (resolutionSuccess r') = (series (resolutionSuccess r))(series_key result \<mapsto> (if Success result then 1 else 0))
     \<and> (if Success result
          then series (resolvedIpCount r') = (series (resolvedIpCount r))(series_key result \<mapsto> real (length (IPs result)))
          else resolvedIpCount r' = resolvedIpCount r)
     \<and> series (queryTotal r') = (series (queryTotal r))
           (series_key result @ [status_of result] \<mapsto> counterValue (queryTotal r) (series_key result @ [status_of result]) + 1)
     \<and> (\<forall>k. take 3 k \<noteq> series_key result \<longrightarrow> series (resolvedIpAddress r') k = series (resolvedIpAddress r) k)"
proof (cases "Success result")
  case True
  from updateMetrics_success [OF assms True] obtain ra where
    "updateMetrics env r result =
     Inr (r\<lparr>responseTime := (responseTime r)\<lparr>series := (series (responseTime r))(series_key result \<mapsto> Seconds (Duration result))\<rparr>,
            resolutionSuccess := (resolutionSuccess r)\<lparr>series := (series (resolutionSuccess r))(series_key result \<mapsto> 1)\<rparr>,
            resolvedIpCount := (resolvedIpCount r)\<lparr>series := (series (resolvedIpCount r))(series_key result \<mapsto> real (length (IPs result)))\<rparr>,
            queryTotal := (queryTotal r)\<lparr>series := (series (queryTotal r))
               (series_key result @ [''success''] \<mapsto> counterValue (queryTotal r) (series_key result @ [''success'']) + 1)\<rparr>,
            resolvedIpAddress := ra\<rparr>)"
    "variableLabels ra = variableLabels (resolvedIpAddress r)"
    "\<forall>k. take 3 k \<noteq> series_key result \<longrightarrow> series ra k = series (resolvedIpAddress r) k"
    by blast
  with True assms(1) show ?thesis
    by (simp add: declared_labels_def status_of_def)
next
  case False
  with updateMetrics_failure [OF assms False] assms(1) show ?thesis
    by (simp add: declared_labels_def status_of_def)
qed

lemma updateMetrics_completes_iff:
  assumes "declared_labels r"
  shows "(\<exists>r'. updateMetrics env r result = Inr r') \<longleftrightarrow> accepted env result"
proof (cases "accepted env result")
  case True
  with updateMetrics_accepted [OF assms True] show ?thesis by blast
next
  case False
  with updateMetrics_rejected [OF assms False] show ?thesis by simp
qed

lemma updateMetrics_effect:
  assumes "declared_labels r" and "updateMetrics env r result = Inr r'"
  shows "accepted env result" and "declared_labels r'"
    and "series (responseTime r') = (series (responseTime r))(series_key result \<mapsto> Seconds (Duration result))"
    and "series (resolutionSuccess r') = (series (resolutionSuccess r))(series_key result \<mapsto> (if Success result then 1 else 0))"
    and "if Success result
          then series (resolvedIpCount r') = (series (resolvedIpCount r))(series_key result \<mapsto> real (length (IPs result)))
          else resolvedIpCount r' = resolvedIpCount r"
    and "series (queryTotal r') = (series (queryTotal r))
           (series_key result @ [status_of result] \<mapsto> counterValue (queryTotal r) (series_key result @ [status_of result]) + 1)"
    and "\<forall>k. take 3 k \<noteq> series_key result \<longrightarrow> series (resolvedIpAddress r') k = series (resolvedIpAddress r) k"
proof -
  show a: "accepted env result"
    using updateMetrics_completes_iff [OF assms(1), of env result] assms(2) by blast
  from updateMetrics_accepted [OF assms(1) a] assms(2)
  show "declared_labels r'"
    and "series (responseTime r') = (series (responseTime r))(series_key result \<mapsto> Seconds (Duration result))"
    and "series (resolutionSuccess r') = (series (resolutionSuccess r))(series_key result \<mapsto> (if Success result then 1 else 0))"
    and "if Success result
          then series (resolvedIpCount r') = (series (resolvedIpCount r))(series_key result \<mapsto> real (length (IPs result)))
          else resolvedIpCount r' = resolvedIpCount r"
    and "series (queryTotal r') = (series (queryTotal r))
           (series_key result @ [status_of result] \<mapsto> counterValue (queryTotal r) (series_key result @ [status_of result]) + 1)"
    and "\<forall>k. take 3 k \<noteq> series_key result \<longrightarrow> series (resolvedIpAddress r') k = series (resolvedIpAddress r) k"
    by simp_all
qed

lemma updateMetrics_frame:
  assumes "declared_labels r" and "updateMetrics env r result = Inr r'"
    and "take 3 k \<noteq> [FQDN result, RecordType result, DNSServer result]"
  shows "series (responseTime r') k = series (responseTime r) k"
    and "series (resolutionSuccess r') k = series (resolutionSuccess r) k"
    and "series (resolvedIpCount r') k = series (resolvedIpCount r) k"
    and "series (queryTotal r') k = series (queryTotal r) k"
    and "series (resolvedIpAddress r') k = series (resolvedIpAddress r) k"
proof -
  note e = updateMetrics_effect [OF assms(1,2)]
  have k3: "k \<noteq> series_key result" and k4: "k \<noteq> series_key result @ [status_of result]"
    using assms(3) by (auto simp: series_key_def)
  show "series (responseTime r') k = series (responseTime r) k" using k3 by (simp add: e(3))
  show "series (resolutionSuccess r') k = series (resolutionSuccess r) k" using k3 by (simp add: e(4))
  show "series (resolvedIpCount r') k = series (resolvedIpCount r) k"
    using k3 e(5) by (cases "Success result") simp_all
  show "series (queryTotal r') k = series (queryTotal r) k" using k4 by (simp add: e(6))
  show "series (resolvedIpAddress r') k = series (resolvedIpAddress r) k"
    using e(7) assms(3) by (simp add: series_key_def)
qed

lemma counter_step:
  assumes "declared_labels r" and "accepted env result"
  shows "\<exists>r'. updateMetrics env r result = Inr r' \<and> declared_labels r'
     \<and> (\<forall>k. counterValue (queryTotal r') k =
           (if k = series_key result @ [status_of result] then counterValue (queryTotal r) k + 1
            else counterValue (queryTotal r) k))"
proof -
  from updateMetrics_accepted [OF assms] obtain r' where
    r': "updateMetrics env r result = Inr r'" "declared_labels r'"
    "series (queryTotal r') = (series (queryTotal r))
           (series_key result @ [status_of result] \<mapsto> counterValue (queryTotal r) (series_key result @ [status_of result]) + 1)"
    by blast
  have "\<forall>k. counterValue (queryTotal r') k =
           (if k = series_key result @ [status_of result] then counterValue (queryTotal r) k + 1
            else counterValue (queryTotal r) k)"
    by (simp add: counterValue_def r'(3))
  with r' show ?thesis by blast
qed

lemma record_all_counts:
  assumes "declared_labels r"
    and "\<forall>result \<in> set results. series_key result = key \<and> accepted env result"
  shows "\<exists>r'. record_all env r results = Inr r'
     \<and> counterValue (queryTotal r') (key @ [''success''])
         = counterValue (queryTotal r) (key @ [''success'']) + length (filter Success results)
     \<and> counterValue (queryTotal r') (key @ [''failure''])
         = counterValue (queryTotal r) (key @ [''failure'']) + length (filter (\<lambda>x. \<not> Success x) results)"
  using assms
proof (induction results arbitrary: r)
  case Nil
  then show ?case by simp
next
  case (Cons result results)
  have key: "series_key result = key" and acc: "accepted env result"
    and rest: "\<forall>x \<in> set results. series_key x = key \<and> accepted env x"
    using Cons.prems(2) by simp_all
  from counter_step [OF Cons.prems(1) acc] obtain r1 where
    r1: "updateMetrics env r result = Inr r1" "declared_labels r1"
    "\<forall>k. counterValue (queryTotal r1) k =
           (if k = series_key result @ [status_of result] then counterValue (queryTotal r) k + 1
            else counterValue (queryTotal r) k)"
    by blast
  from Cons.IH [OF r1(2) rest] obtain r' where
    r': "record_all env r1 results = Inr r'"
    "counterValue (queryTotal r') (key @ [''success''])
         = counterValue (queryTotal r1) (key @ [''success'']) + length (filter Success results)"
    "counterValue (queryTotal r') (key @ [''failure''])
         = counterValue (queryTotal r1) (key @ [''failure'']) + length (filter (\<lambda>x. \<not> Success x) results)"
    by blast
  show ?case
    using r1(1) r1(3) r' key by (simp add: status_of_def)
qed

lemma record_all_last:
  assumes "declared_labels r" and "results \<noteq> []"
    and "\<forall>result \<in> set results. series_key result = key \<and> accepted env result"
  shows "\<exists>r'. record_all env r results = Inr r'
     \<and> series (responseTime r') key = Some (Seconds (Duration (last results)))
     \<and> series (resolutionSuccess r') key = Some (if Success (last results) then 1 else 0)"
  using assms
proof (induction results arbitrary: r)
  case Nil
  then show ?case by simp
next
  case (Cons result results)
  have key: "series_key result = key" and acc: "accepted env result"
    and rest: "\<forall>x \<in> set results. series_key x = key \<and> accepted env x"
    using Cons.prems(3) by simp_all
  from updateMetrics_accepted [OF Cons.prems(1) acc] obtain r1 where
    r1: "updateMetrics env r result = Inr r1" "declared_labels r1"
    "series (responseTime r1) = (series (responseTime r))(series_key result \<mapsto> Seconds (Duration result))"
    "series (resolutionSuccess r1) = (series (resolutionSuccess r))(series_key result \<mapsto> (if Success result then 1 else 0))"
    by blast
  show ?case
  proof (cases "results = []")
    case True
    with r1 key show ?thesis by simp
  next
    case False
    from Cons.IH [OF r1(2) False rest] r1(1) False show ?thesis by simp
  qed
qed

section \<open>The result of Lookup\<close>

lemma Lookup_eq:
  "Lookup env r fqdn dnsServer recordType timeout w =
     (case updateMetrics env r
        \<lparr>FQDN = fqdn, RecordType = recordType, DNSServer = dnsServer,
         IPs = fst (fst (lookup_switch env (custom_resolver dnsServer) timeout recordType fqdn w)),
         Duration = Now env (snd (lookup_switch env (custom_resolver dnsServer) timeout recordType fqdn w))
                    - Now env w,
         Success = (snd (fst (lookup_switch env (custom_resolver dnsServer) timeout recordType fqdn w)) = None),
         Error = snd (fst (lookup_switch env (custom_resolver dnsServer) timeout recordType fqdn w))\<rparr> of
        Inl p \<Rightarrow> Inl p
      | Inr r' \<Rightarrow>
          Inr (\<lparr>FQDN = fqdn, RecordType = recordType, DNSServer = dnsServer,
                IPs = fst (fst (lookup_switch env (custom_resolver dnsServer) timeout recordType fqdn w)),
                Duration = Now env (snd (lookup_switch env (custom_resolver dnsServer) timeout recordType fqdn w))
                           - Now env w,
                Success = (snd (fst (lookup_switch env (custom_resolver dnsServer) timeout recordType fqdn w)) = None),
                Error = snd (fst (lookup_switch env (custom_resolver dnsServer) timeout recordType fqdn w))\<rparr>,
               r', snd (lookup_switch env (custom_resolver dnsServer) timeout recordType fqdn w)))"
  by (simp add: Lookup_def Let_def case_prod_beta)

lemma Lookup_InrD:
  assumes "Lookup env r fqdn dnsServer recordType timeout w = Inr (result, r', w')"
  shows "updateMetrics env r result = Inr r'"
    and "w' = snd (lookup_switch env (custom_resolver dnsServer) timeout recordType fqdn w)"
    and "FQDN result = fqdn" and "RecordType result = recordType" and "DNSServer result = dnsServer"
    and "IPs result = fst (fst (lookup_switch env (custom_resolver dnsServer) timeout recordType fqdn w))"
    and "Error result = snd (fst (lookup_switch env (custom_resolver dnsServer) timeout recordType fqdn w))"
    and "Success result = (Error result = None)"
    and "Duration result = Now env w' - Now env w"
  using assms
  by (auto simp: Lookup_def Let_def split: prod.splits sum.splits)

lemma Lookup_total:
  assumes "declared_labels r"
    and "ValidString fqdn" and "ValidString dnsServer" and "ValidString recordType"
    and "\<forall>ip. ValidString (IPString env ip)"
  shows "\<exists>result r' w'. Lookup env r fqdn dnsServer recordType timeout w = Inr (result, r', w')
           \<and> declared_labels r'"
proof -
  let ?sw = "lookup_switch env (custom_resolver dnsServer) timeout recordType fqdn w"
  let ?result = "\<lparr>FQDN = fqdn, RecordType = recordType, DNSServer = dnsServer, IPs = fst (fst ?sw),
                   Duration = Now env (snd ?sw) - Now env w, Success = (snd (fst ?sw) = None),
                   Error = snd (fst ?sw)\<rparr>"
  have "accepted env ?result"
    using assms(2-5) by (simp add: accepted_def list_all_iff)
  from updateMetrics_accepted [OF assms(1) this] obtain r' where
    "updateMetrics env r ?result = Inr r'" "declared_labels r'"
    by blast
  then show ?thesis
    by (simp add: Lookup_eq)
qed

lemma Lookup_rejected:
  assumes "declared_labels r"
    and "\<not> (ValidString fqdn \<and> ValidString recordType \<and> ValidString dnsServer)"
  shows "Lookup env r fqdn dnsServer recordType timeout w = Inl InvalidLabelValue"
proof -
  let ?sw = "lookup_switch env (custom_resolver dnsServer) timeout recordType fqdn w"
  let ?result = "\<lparr>FQDN = fqdn, RecordType = recordType, DNSServer = dnsServer, IPs = fst (fst ?sw),
                   Duration = Now env (snd ?sw) - Now env w, Success = (snd (fst ?sw) = None),
                   Error = snd (fst ?sw)\<rparr>"
  have "\<not> accepted env ?result"
    using assms(2) by (auto simp: accepted_def)
  from updateMetrics_rejected [OF assms(1) this] show ?thesis
    by (simp add: Lookup_eq)
qed

lemma Lookup_result_independent:
  assumes "Lookup env r fqdn dnsServer recordType timeout w = Inr (result, r', w')"
    and "declared_labels r" and "declared_labels r2"
  shows "\<exists>r2'. Lookup env r2 fqdn dnsServer recordType timeout w = Inr (result, r2', w')"
proof -
  let ?sw = "lookup_switch env (custom_resolver dnsServer) timeout recordType fqdn w"
  let ?result = "\<lparr>FQDN = fqdn, RecordType = recordType, DNSServer = dnsServer, IPs = fst (fst ?sw),
                   Duration = Now env (snd ?sw) - Now env w, Success = (snd (fst ?sw) = None),
                   Error = snd (fst ?sw)\<rparr>"
  have res: "result = ?result" and w': "w' = snd ?sw"
    using assms(1) by (auto simp: Lookup_eq split: sum.splits)
  from Lookup_InrD(1) [OF assms(1)] have "accepted env result"
    using updateMetrics_effect(1) [OF assms(2)] by blast
  from updateMetrics_accepted [OF assms(3) this] obtain r2' where
    "updateMetrics env r2 result = Inr r2'" by blast
  then have "Lookup env r2 fqdn dnsServer recordType timeout w = Inr (result, r2', w')"
    unfolding res w' by (simp add: Lookup_eq)
  then show ?thesis by blast
qed

lemma Lookup_counts:
  assumes "declared_labels r"
    and "Lookup env r fqdn dnsServer recordType timeout w = Inr (result, r', w')"
  shows "declared_labels r'"
    and "\<forall>k. counterValue (queryTotal r') k =
           counterValue (queryTotal r) k
           + (if k = [fqdn, recordType, dnsServer, status_of result] then 1 else 0)"
proof -
  note D = Lookup_InrD [OF assms(2)]
  note e = updateMetrics_effect [OF assms(1) D(1)]
  show "declared_labels r'" by (rule e(2))
  have key: "series_key result @ [status_of result] = [fqdn, recordType, dnsServer, status_of result]"
    by (simp add: series_key_def D(3,4,5))
  show "\<forall>k. counterValue (queryTotal r') k =
           counterValue (queryTotal r) k
           + (if k = [fqdn, recordType, dnsServer, status_of result] then 1 else 0)"
    unfolding key [symmetric] by (simp add: counterValue_def e(6))
qed

section \<open>One pass of the monitoring loop\<close>

lemma resolve_one_eq:
  "resolve_one env cfg target dnsServer recordType st =
     (case Lookup env (resolver st) (Target_FQDN target) (Address dnsServer) recordType
             (Timeout (Monitoring cfg)) (world st) of
        Inl p \<Rightarrow> Inl p
      | Inr (result, r', w') \<Rightarrow>
          Inr \<lparr>world = w', resolver = r', logged = logged st @ [log_line target recordType dnsServer]\<rparr>)"
  by (simp add: resolve_one_def Let_def)

lemma resolve_one_InrD:
  assumes "resolve_one env cfg target dnsServer recordType st = Inr st'"
  shows "\<exists>result. Lookup env (resolver st) (Target_FQDN target) (Address dnsServer) recordType
             (Timeout (Monitoring cfg)) (world st) = Inr (result, resolver st', world st')"
    and "logged st' = logged st @ [log_line target recordType dnsServer]"
  using assms by (auto simp: resolve_one_eq split: sum.splits)

lemma resolve_each_Cons:
  "resolve_each env cfg ((target, dnsServer, recordType) # rest) st =
     (case resolve_one env cfg target dnsServer recordType st of
        Inl p \<Rightarrow> Inl p
      | Inr st' \<Rightarrow> resolve_each env cfg rest st')"
  by (simp add: resolve_one_eq split: sum.splits)

lemma resolve_each_append:
  "resolve_each env cfg (xs @ ys) st =
     (case resolve_each env cfg xs st of Inl p \<Rightarrow> Inl p | Inr st' \<Rightarrow> resolve_each env cfg ys st')"
  by (induction xs arbitrary: st) (auto split: sum.splits)

lemma range_recordTypes_each:
  "range_recordTypes env cfg target dnsServer rts st =
     resolve_each env cfg (map (\<lambda>recordType. (target, dnsServer, recordType)) rts) st"
proof (induction rts arbitrary: st)
  case Nil
  show ?case by simp
next
  case (Cons rt rts)
  show ?case
    by (simp only: range_recordTypes.simps list.map resolve_each_Cons)
       (simp add: Cons.IH split: sum.splits)
qed

lemma range_DNSServers_each:
  "range_DNSServers env cfg target servers st =
     resolve_each env cfg
       (concat (map (\<lambda>dnsServer. map (\<lambda>recordType. (target, dnsServer, recordType)) (RecordTypes target)) servers)) st"
  by (induction servers arbitrary: st)
     (auto simp: resolve_each_append range_recordTypes_each split: sum.splits)

lemma range_Targets_each:
  "range_Targets env cfg targets st =
     resolve_each env cfg
       (concat (map (\<lambda>target.
          concat (map (\<lambda>dnsServer. map (\<lambda>recordType. (target, dnsServer, recordType)) (RecordTypes target))
            (DNSServers cfg))) targets)) st"
  by (induction targets arbitrary: st)
     (auto simp: resolve_each_append range_DNSServers_each split: sum.splits)

lemma tick_each: "tick env cfg st = resolve_each env cfg (triples cfg) st"
  by (simp add: tick_def triples_def range_Targets_each)

lemma resolve_one_total:
  assumes "declared_labels (resolver st)"
    and "ValidString (Target_FQDN target)" and "ValidString (Address dnsServer)"
    and "ValidString recordType" and "\<forall>ip. ValidString (IPString env ip)"
  shows "\<exists>st'. resolve_one env cfg target dnsServer recordType st = Inr st'
     \<and> declared_labels (resolver st')"
proof -
  from Lookup_total [OF assms, of "Timeout (Monitoring cfg)" "world st"]
  obtain result r' w' where
    "Lookup env (resolver st) (Target_FQDN target) (Address dnsServer) recordType
       (Timeout (Monitoring cfg)) (world st) = Inr (result, r', w')" "declared_labels r'"
    by blast
  then show ?thesis by (simp add: resolve_one_eq)
qed

lemma resolve_each_total:
  assumes "declared_labels (resolver st)" and "\<forall>ip. ValidString (IPString env ip)"
    and "\<forall>(target, dnsServer, recordType) \<in> set trs.
           ValidString (Target_FQDN target) \<and> ValidString (Address dnsServer) \<and> ValidString recordType"
  shows "\<exists>st'. resolve_each env cfg trs st = Inr st' \<and> declared_labels (resolver st')"
  using assms(1,3)
proof (induction trs arbitrary: st)
  case Nil
  then show ?case by simp
next
  case (Cons tr trs)
  obtain target dnsServer recordType where tr: "tr = (target, dnsServer, recordType)"
    by (cases tr) auto
  have v: "ValidString (Target_FQDN target)" "ValidString (Address dnsServer)" "ValidString recordType"
    and rest: "\<forall>(target, dnsServer, recordType) \<in> set trs.
           ValidString (Target_FQDN target) \<and> ValidString (Address dnsServer) \<and> ValidString recordType"
    using Cons.prems(2) tr by simp_all
  from resolve_one_total [OF Cons.prems(1) v assms(2), of cfg] obtain st1 where
    st1: "resolve_one env cfg target dnsServer recordType st = Inr st1"
    "declared_labels (resolver st1)"
    by blast
  from Cons.IH [OF st1(2) rest] obtain st' where
    "resolve_each env cfg trs st1 = Inr st'" "declared_labels (resolver st')"
    by blast
  with st1 tr show ?case by (simp only: resolve_each_Cons) simp
qed

lemma resolve_each_log:
  assumes "resolve_each env cfg trs st = Inr st'"
  shows "logged st' = logged st
           @ map (\<lambda>(target, dnsServer, recordType). log_line target recordType dnsServer) trs"
  using assms
proof (induction trs arbitrary: st)
  case Nil
  then show ?case by simp
next
  case (Cons tr trs)
  obtain target dnsServer recordType where tr: "tr = (target, dnsServer, recordType)"
    by (cases tr) auto
  from Cons.prems obtain st1 where
    st1: "resolve_one env cfg target dnsServer recordType st = Inr st1"
    and r: "resolve_each env cfg trs st1 = Inr st'"
    unfolding tr resolve_each_Cons by (auto split: sum.splits)
  from Cons.IH [OF r] resolve_one_InrD(2) [OF st1] tr show ?case by simp
qed


lemma valid_config_triples:
  assumes "valid_config cfg"
  shows "\<forall>(target, dnsServer, recordType) \<in> set (triples cfg).
           ValidString (Target_FQDN target) \<and> ValidString (Address dnsServer) \<and> ValidString recordType"
  using assms by (auto simp: valid_config_def triples_def list_all_iff)

lemma tick_total:
  assumes "declared_labels (resolver st)" and "valid_config cfg"
    and "\<forall>ip. ValidString (IPString env ip)"
  shows "\<exists>st'. tick env cfg st = Inr st' \<and> declared_labels (resolver st')"
  using resolve_each_total [OF assms(1,3) valid_config_triples [OF assms(2)], of cfg]
  by (simp add: tick_each)

lemma tick_log:
  assumes "tick env cfg st = Inr st'"
  shows "logged st' = logged st @ log_lines cfg"
  using resolve_each_log [of env cfg "triples cfg" st st'] assms
  by (simp add: tick_each log_lines_def)


lemma iterations_total:
  assumes "declared_labels (resolver st)" and "valid_config cfg"
    and "\<forall>ip. ValidString (IPString env ip)"
  shows "\<exists>st'. iterations env cfg n st = Inr st' \<and> declared_labels (resolver st')"
  using assms(1)
proof (induction n arbitrary: st)
  case 0
  then show ?case by simp
next
  case (Suc n)
  from tick_total [OF Suc.prems assms(2,3)] obtain st1 where
    st1: "tick env cfg st = Inr st1" "declared_labels (resolver st1)"
    by blast
  let ?st2 = "st1\<lparr>world := TickerRecv env (Interval (Monitoring cfg)) (world st1)\<rparr>"
  have "declared_labels (resolver ?st2)" using st1(2) by simp
  from Suc.IH [OF this] st1(1) show ?case by simp
qed

lemma iterations_log:
  assumes "iterations env cfg n st = Inr st'"
  shows "logged st' = logged st @ concat (replicate n (log_lines cfg))"
  using assms
proof (induction n arbitrary: st)
  case 0
  then show ?case by simp
next
  case (Suc n)
  from Suc.prems obtain st1 where
    st1: "tick env cfg st = Inr st1"
    and r: "iterations env cfg n (st1\<lparr>world := TickerRecv env (Interval (Monitoring cfg)) (world st1)\<rparr>) = Inr st'"
    by (auto split: sum.splits)
  from Suc.IH [OF r] tick_log [OF st1] show ?case by simp
qed


lemma monitoring_InrD:
  assumes "monitoring env cfg n st = Inr st'"
  shows "0 < Interval (Monitoring cfg)" and "iterations env cfg n st = Inr st'"
  using assms by (auto simp: monitoring_def split: if_splits)

lemma monitoring_total:
  assumes "0 < Interval (Monitoring cfg)"
    and "declared_labels (resolver st)" and "valid_config cfg"
    and "\<forall>ip. ValidString (IPString env ip)"
  shows "\<exists>st'. monitoring env cfg n st = Inr st'"
  using iterations_total [OF assms(2,3,4), of n] assms(1)
  by (auto simp: monitoring_def)

lemma tick_two_targets:
  assumes "declared_labels (resolver st)"
    and "Targets cfg = [t1, t2]" and "DNSServers cfg = [s]"
    and "RecordTypes t1 = [rt1]" and "RecordTypes t2 = [rt2]"
    and "tick env cfg st = Inr st'"
  shows "\<exists>result1 r1 w1 result2.
       Lookup env (resolver st) (Target_FQDN t1) (Address s) rt1 (Timeout (Monitoring cfg)) (world st)
         = Inr (result1, r1, w1)
     \<and> Lookup env r1 (Target_FQDN t2) (Address s) rt2 (Timeout (Monitoring cfg)) w1
         = Inr (result2, resolver st', world st')
     \<and> updateMetrics env (resolver st) result1 = Inr r1
     \<and> updateMetrics env r1 result2 = Inr (resolver st')
     \<and> FQDN result1 = Target_FQDN t1 \<and> FQDN result2 = Target_FQDN t2
     \<and> logged st' = logged st @ [log_line t1 rt1 s, log_line t2 rt2 s]
     \<and> (\<forall>k. counterValue (queryTotal (resolver st')) k =
           counterValue (queryTotal (resolver st)) k
           + (if k = [Target_FQDN t1, rt1, Address s, status_of result1] then 1 else 0)
           + (if k = [Target_FQDN t2, rt2, Address s, status_of result2] then 1 else 0))"
proof -
  have tr: "triples cfg = [(t1, s, rt1), (t2, s, rt2)]"
    using assms(2-5) by (simp add: triples_def)
  from assms(6) obtain result1 r1 w1 where
    L1: "Lookup env (resolver st) (Target_FQDN t1) (Address s) rt1 (Timeout (Monitoring cfg)) (world st)
         = Inr (result1, r1, w1)"
    and rest: "resolve_each env cfg [(t2, s, rt2)]
                 \<lparr>world = w1, resolver = r1, logged = logged st @ [log_line t1 rt1 s]\<rparr> = Inr st'"
    unfolding tick_each tr by (auto split: sum.splits)
  from rest obtain result2 r2 w2 where
    L2: "Lookup env r1 (Target_FQDN t2) (Address s) rt2 (Timeout (Monitoring cfg)) w1
         = Inr (result2, r2, w2)"
    and st': "st' = \<lparr>world = w2, resolver = r2,
                     logged = (logged st @ [log_line t1 rt1 s]) @ [log_line t2 rt2 s]\<rparr>"
    by (auto split: sum.splits)
  note C1 = Lookup_counts [OF assms(1) L1]
  note C2 = Lookup_counts [OF C1(1) L2]
  have "\<forall>k. counterValue (queryTotal r2) k =
           counterValue (queryTotal (resolver st)) k
           + (if k = [Target_FQDN t1, rt1, Address s, status_of result1] then 1 else 0)
           + (if k = [Target_FQDN t2, rt2, Address s, status_of result2] then 1 else 0)"
    using C1(2) C2(2) by simp
  with L1 L2 Lookup_InrD(1,3) [OF L1] Lookup_InrD(1,3) [OF L2] show ?thesis
    unfolding st' by (intro exI [of _ result1] exI [of _ r1] exI [of _ w1] exI [of _ result2]) simp
qed

section \<open>Values of the fixed platform\<close>

lemma ValidString_examples:
  "ValidString ''example.com''" "ValidString ''nxdomain-test.invalid''" "ValidString ''8.8.8.8''"
  "ValidString ''A''" "ValidString ''AAAA''" "ValidString ''ANY''" "ValidString ''''"
  "ValidString ''MX''"
  by (simp_all add: ValidString_def)

lemma not_ValidString_examples:
  "\<not> ValidString [CHR 0xFF]" "\<not> ValidString [CHR ''A'', CHR 0xFF]"
  by (simp_all add: ValidString_def first_def)

lemma example_IPString_valid: "\<forall>ip. ValidString (IPString example_net ip)"
  by (simp add: example_net_def ValidString_def)

lemma example_Now: "Now example_net w = w"
  by (simp add: example_net_def)

lemma To4_example_v4: "To4 example_v4 = Some example_v4"
  by (simp add: To4_def example_v4_def)

lemma To4_example_v6: "To4 example_v6 = None"
  by (simp add: To4_def example_v6_def)

lemma length_example_v6: "length example_v6 = 16"
  by (simp add: example_v6_def)

lemma example_LookupIP:
  "LookupIP example_net res t ''ip4'' ''example.com'' w = (([example_v4], None), w + 20000000)"
  "LookupIP example_net res t ''ip6'' ''example.com'' w = (([example_v6], None), w + 25000000)"
  "LookupIP example_net res t ''ip4'' ''nxdomain-test.invalid'' w = (([], Some ''no such host''), w + 5000000)"
  by (simp_all add: example_net_def)

lemma example_LookupIPAddr:
  "LookupIPAddr example_net res t ''example.com'' w
     = (([\<lparr>IP = example_v4, Zone = ''''\<rparr>, \<lparr>IP = example_v6, Zone = ''''\<rparr>], None), w + 30000000)"
  "LookupIPAddr example_net res t ''nxdomain-test.invalid'' w = (([], Some ''no such host''), w + 5000000)"
  by (simp_all add: example_net_def)

lemma example_lookup_switch:
  "lookup_switch example_net res t ''A'' ''example.com'' w
     = (([\<lparr>IP = example_v4, Zone = ''''\<rparr>], None), w + 20000000)"
  "lookup_switch example_net res t ''A'' ''nxdomain-test.invalid'' w
     = (([], Some ''no such host''), w + 5000000)"
  by (simp_all add: lookup_switch_def example_LookupIP)

lemma counterValue_main: "counterValue (queryTotal main_resolver) k = 0"
  by (simp add: counterValue_def main_resolver_def NewResolver_def dnsQueryTotal_def NewCounterVec_def)

lemma example_accepted: "accepted example_net ok_result" "accepted example_net failed_result"
  using example_IPString_valid
  by (simp_all add: accepted_def ok_result_def failed_result_def ValidString_examples)

lemma declared_labels_warm: "declared_labels warm_resolver"
  by (simp add: warm_resolver_def declared_labels_def main_resolver_def NewResolver_def)

lemma example_cfg_simps:
  "Targets example_cfg = [\<lparr>Target_FQDN = ''example.com'', RecordTypes = [''A'']\<rparr>,
                          \<lparr>Target_FQDN = ''nxdomain-test.invalid'', RecordTypes = [''A'']\<rparr>]"
  "DNSServers example_cfg = [\<lparr>Name = ''google'', Address = ''8.8.8.8''\<rparr>]"
  "Interval (Monitoring example_cfg) = 30000000000"
  "Timeout (Monitoring example_cfg) = 10000000000"
  by (simp_all add: example_cfg_def)

lemma busy_cfg_simps:
  "Targets busy_cfg = [\<lparr>Target_FQDN = ''example.com'', RecordTypes = [''A'']\<rparr>,
                       \<lparr>Target_FQDN = ''nxdomain-test.invalid'', RecordTypes = [''A'']\<rparr>]"
  "DNSServers busy_cfg = [\<lparr>Name = ''google'', Address = ''8.8.8.8''\<rparr>]"
  "Interval (Monitoring busy_cfg) = 10000000"
  "Timeout (Monitoring busy_cfg) = 10000000000"
  by (simp_all add: busy_cfg_def example_cfg_def)

lemma example_valid_config: "valid_config example_cfg" "valid_config busy_cfg"
  by (simp_all add: valid_config_def example_cfg_simps busy_cfg_simps ValidString_examples)

lemma example_log_lines:
  "log_lines example_cfg = [''Resolving example.com (A) via google (8.8.8.8)'',
                            ''Resolving nxdomain-test.invalid (A) via google (8.8.8.8)'']"
  "log_lines busy_cfg = [''Resolving example.com (A) via google (8.8.8.8)'',
                         ''Resolving nxdomain-test.invalid (A) via google (8.8.8.8)'']"
  by (simp_all add: log_lines_def triples_def example_cfg_simps busy_cfg_simps log_line_def)

lemma example_start_simps:
  "world example_start = 0" "resolver example_start = main_resolver" "logged example_start = []"
  by (simp_all add: example_start_def)

lemma example_Lookup_total:
  assumes "declared_labels r" and "ValidString fqdn" and "ValidString recordType"
  shows "\<exists>result r' w'. Lookup example_net r fqdn ''8.8.8.8'' recordType timeout w = Inr (result, r', w')
           \<and> declared_labels r'"
  using Lookup_total [OF assms(1,2) ValidString_examples(3) assms(3) example_IPString_valid] .


lemma example_pass:
  assumes "declared_labels (resolver st)"
    and "Targets cfg = [\<lparr>Target_FQDN = ''example.com'', RecordTypes = [''A'']\<rparr>,
                        \<lparr>Target_FQDN = ''nxdomain-test.invalid'', RecordTypes = [''A'']\<rparr>]"
    and "DNSServers cfg = [\<lparr>Name = ''google'', Address = ''8.8.8.8''\<rparr>]"
    and "tick example_net cfg st = Inr st'"
  shows "world st' = world st + 25000000"
    and "counterValue (queryTotal (resolver st')) [''example.com'', ''A'', ''8.8.8.8'', ''success'']
           = counterValue (queryTotal (resolver st)) [''example.com'', ''A'', ''8.8.8.8'', ''success''] + 1"
    and "counterValue (queryTotal (resolver st')) [''nxdomain-test.invalid'', ''A'', ''8.8.8.8'', ''failure'']
           = counterValue (queryTotal (resolver st)) [''nxdomain-test.invalid'', ''A'', ''8.8.8.8'', ''failure''] + 1"
proof -
  let ?t1 = "\<lparr>Target_FQDN = ''example.com'', RecordTypes = [''A'']\<rparr>"
  let ?t2 = "\<lparr>Target_FQDN = ''nxdomain-test.invalid'', RecordTypes = [''A'']\<rparr>"
  let ?s = "\<lparr>Name = ''google'', Address = ''8.8.8.8''\<rparr>"
  have rt: "RecordTypes ?t1 = [''A'']" "RecordTypes ?t2 = [''A'']" by simp_all
  from tick_two_targets [OF assms(1,2,3) rt assms(4)] obtain result1 r1 w1 result2 where
    L1: "Lookup example_net (resolver st) ''example.com'' ''8.8.8.8'' ''A'' (Timeout (Monitoring cfg)) (world st)
         = Inr (result1, r1, w1)"
    and L2: "Lookup example_net r1 ''nxdomain-test.invalid'' ''8.8.8.8'' ''A'' (Timeout (Monitoring cfg)) w1
         = Inr (result2, resolver st', world st')"
    and c: "\<forall>k. counterValue (queryTotal (resolver st')) k =
           counterValue (queryTotal (resolver st)) k
           + (if k = [''example.com'', ''A'', ''8.8.8.8'', status_of result1] then 1 else 0)
           + (if k = [''nxdomain-test.invalid'', ''A'', ''8.8.8.8'', status_of result2] then 1 else 0)"
    by auto
  have w1: "w1 = world st + 20000000"
    using Lookup_InrD(2) [OF L1] by (simp add: example_lookup_switch)
  show "world st' = world st + 25000000"
    using Lookup_InrD(2) [OF L2] w1 by (simp add: example_lookup_switch)
  have s1: "status_of result1 = ''success''"
    using Lookup_InrD(7,8) [OF L1] by (simp add: status_of_def example_lookup_switch)
  have s2: "status_of result2 = ''failure''"
    using Lookup_InrD(7,8) [OF L2] by (simp add: status_of_def example_lookup_switch)
  show "counterValue (queryTotal (resolver st')) [''example.com'', ''A'', ''8.8.8.8'', ''success'']
           = counterValue (queryTotal (resolver st)) [''example.com'', ''A'', ''8.8.8.8'', ''success''] + 1"
    by (simp add: c s1 s2)
  show "counterValue (queryTotal (resolver st')) [''nxdomain-test.invalid'', ''A'', ''8.8.8.8'', ''failure'']
           = counterValue (queryTotal (resolver st)) [''nxdomain-test.invalid'', ''A'', ''8.8.8.8'', ''failure''] + 1"
    by (simp add: c s1 s2)
qed

section \<open>The claims\<close>

text \<open>
  C1. Every completed call of \<open>Lookup\<close> returns a result in which failure implies
  that no addresses are reported and success implies that no error is recorded. For
  the record types \<^verbatim>\<open>A\<close> and \<^verbatim>\<open>AAAA\<close> the code itself drops the addresses when the
  library reports an error; in the default branch the result carries what
  \<^verbatim>\<open>LookupIPAddr\<close> returned, so the library's convention (no addresses together with
  an error) is the hypothesis there.
\<close>

theorem Lookup_outcome_invariant:
  assumes "Lookup env r fqdn dnsServer recordType timeout w = Inr (result, r', w')"
    and "recordType \<noteq> ''A'' \<and> recordType \<noteq> ''AAAA''
         \<and> snd (fst (LookupIPAddr env (custom_resolver dnsServer) timeout fqdn w)) \<noteq> None
         \<longrightarrow> fst (fst (LookupIPAddr env (custom_resolver dnsServer) timeout fqdn w)) = []"
  shows "(\<not> Success result \<longrightarrow> IPs result = []) \<and> (Success result \<longrightarrow> Error result = None)"
proof -
  note L = Lookup_InrD [OF assms(1)]
  have "Error result \<noteq> None \<longrightarrow> IPs result = []"
    using assms(2) unfolding L(6,7)
    by (auto simp: lookup_switch_def split: prod.splits)
  with L(8) show ?thesis by simp
qed

theorem Lookup_outcome_invariant_witness:
  "(\<exists>result r' w'. Lookup example_net main_resolver ''example.com'' ''8.8.8.8'' ''A'' 2000000000 0
        = Inr (result, r', w') \<and> Success result \<and> Error result = None)
   \<and> (\<exists>result r' w'. Lookup example_net main_resolver ''nxdomain-test.invalid'' ''8.8.8.8'' ''ANY'' 2000000000 0
        = Inr (result, r', w') \<and> \<not> Success result \<and> IPs result = [])"
proof (intro conjI)
  from example_Lookup_total [OF declared_labels_main ValidString_examples(1,4), of 2000000000 0]
  obtain result r' w' where
    L: "Lookup example_net main_resolver ''example.com'' ''8.8.8.8'' ''A'' 2000000000 0 = Inr (result, r', w')"
    by blast
  have ok: "Success result"
    using Lookup_InrD(7,8) [OF L] by (simp add: example_lookup_switch)
  have "(\<not> Success result \<longrightarrow> IPs result = []) \<and> (Success result \<longrightarrow> Error result = None)"
    by (rule Lookup_outcome_invariant [OF L]) simp
  with ok L show "\<exists>result r' w'. Lookup example_net main_resolver ''example.com'' ''8.8.8.8'' ''A'' 2000000000 0
        = Inr (result, r', w') \<and> Success result \<and> Error result = None"
    by blast
next
  from example_Lookup_total [OF declared_labels_main ValidString_examples(2,6), of 2000000000 0]
  obtain result r' w' where
    L: "Lookup example_net main_resolver ''nxdomain-test.invalid'' ''8.8.8.8'' ''ANY'' 2000000000 0 = Inr (result, r', w')"
    by blast
  have failed: "\<not> Success result"
    using Lookup_InrD(7,8) [OF L] by (simp add: lookup_switch_def example_LookupIPAddr)
  have "(\<not> Success result \<longrightarrow> IPs result = []) \<and> (Success result \<longrightarrow> Error result = None)"
    by (rule Lookup_outcome_invariant [OF L]) (simp add: example_LookupIPAddr)
  with failed L show "\<exists>result r' w'. Lookup example_net main_resolver ''nxdomain-test.invalid'' ''8.8.8.8'' ''ANY'' 2000000000 0
        = Inr (result, r', w') \<and> \<not> Success result \<and> IPs result = []"
    by blast
qed

text \<open>
  C2. For record type \<^verbatim>\<open>A\<close> the call asks the library for network \<^verbatim>\<open>ip4\<close> only and
  every returned address is IPv4 and not IPv6; for \<^verbatim>\<open>AAAA\<close> it asks for \<^verbatim>\<open>ip6\<close> only
  and every returned address is IPv6 and not IPv4; for any other record type it asks
  for both families with \<^verbatim>\<open>LookupIPAddr\<close> and returns all addresses of the answer
  unfiltered. The library's answer for a network is assumed to be of that network's
  family, as its contract says; the code adds and removes nothing.
\<close>

theorem Lookup_address_family:
  assumes "Lookup env r fqdn dnsServer recordType timeout w = Inr (result, r', w')"
    and "recordType = ''A'' \<longrightarrow>
           (\<forall>ip \<in> set (fst (fst (LookupIP env (custom_resolver dnsServer) timeout ''ip4'' fqdn w))).
              To4 ip \<noteq> None)"
    and "recordType = ''AAAA'' \<longrightarrow>
           (\<forall>ip \<in> set (fst (fst (LookupIP env (custom_resolver dnsServer) timeout ''ip6'' fqdn w))).
              length ip = 16 \<and> To4 ip = None)"
  shows "(recordType = ''A'' \<longrightarrow>
            (\<forall>a \<in> set (IPs result). ipv4only a \<and> \<not> ipv6only a)
            \<and> w' = snd (LookupIP env (custom_resolver dnsServer) timeout ''ip4'' fqdn w))
       \<and> (recordType = ''AAAA'' \<longrightarrow>
            (\<forall>a \<in> set (IPs result). ipv6only a \<and> \<not> ipv4only a)
            \<and> w' = snd (LookupIP env (custom_resolver dnsServer) timeout ''ip6'' fqdn w))
       \<and> (recordType \<noteq> ''A'' \<and> recordType \<noteq> ''AAAA'' \<longrightarrow>
            IPs result = fst (fst (LookupIPAddr env (custom_resolver dnsServer) timeout fqdn w))
            \<and> w' = snd (LookupIPAddr env (custom_resolver dnsServer) timeout fqdn w))"
proof -
  note L = Lookup_InrD [OF assms(1)]
  show ?thesis
    using assms(2,3) unfolding L(2,6)
    by (auto simp: lookup_switch_def ipv4only_def ipv6only_def split: prod.splits)
qed

theorem Lookup_address_family_witness:
  "(\<exists>result r' w'. Lookup example_net main_resolver ''example.com'' ''8.8.8.8'' ''A'' 2000000000 0
        = Inr (result, r', w') \<and> IPs result = [\<lparr>IP = example_v4, Zone = ''''\<rparr>]
        \<and> ipv4only \<lparr>IP = example_v4, Zone = ''''\<rparr> \<and> \<not> ipv6only \<lparr>IP = example_v4, Zone = ''''\<rparr>
        \<and> w' = 20000000)
   \<and> (\<exists>result r' w'. Lookup example_net main_resolver ''example.com'' ''8.8.8.8'' ''AAAA'' 2000000000 0
        = Inr (result, r', w') \<and> IPs result = [\<lparr>IP = example_v6, Zone = ''''\<rparr>]
        \<and> ipv6only \<lparr>IP = example_v6, Zone = ''''\<rparr> \<and> \<not> ipv4only \<lparr>IP = example_v6, Zone = ''''\<rparr>
        \<and> w' = 25000000)
   \<and> (\<exists>result r' w'. Lookup example_net main_resolver ''example.com'' ''8.8.8.8'' ''ANY'' 2000000000 0
        = Inr (result, r', w')
        \<and> IPs result = [\<lparr>IP = example_v4, Zone = ''''\<rparr>, \<lparr>IP = example_v6, Zone = ''''\<rparr>]
        \<and> w' = 30000000)"
proof (intro conjI)
  from example_Lookup_total [OF declared_labels_main ValidString_examples(1,4), of 2000000000 0]
  obtain result r' w' where
    L: "Lookup example_net main_resolver ''example.com'' ''8.8.8.8'' ''A'' 2000000000 0 = Inr (result, r', w')"
    by blast
  have ips: "IPs result = [\<lparr>IP = example_v4, Zone = ''''\<rparr>]"
    using Lookup_InrD(6) [OF L] by (simp add: example_lookup_switch)
  have "(\<forall>a \<in> set (IPs result). ipv4only a \<and> \<not> ipv6only a)
        \<and> w' = snd (LookupIP example_net (custom_resolver ''8.8.8.8'') 2000000000 ''ip4'' ''example.com'' 0)"
    using Lookup_address_family [OF L] by (simp add: example_LookupIP To4_example_v4)
  with ips L show "\<exists>result r' w'. Lookup example_net main_resolver ''example.com'' ''8.8.8.8'' ''A'' 2000000000 0
        = Inr (result, r', w') \<and> IPs result = [\<lparr>IP = example_v4, Zone = ''''\<rparr>]
        \<and> ipv4only \<lparr>IP = example_v4, Zone = ''''\<rparr> \<and> \<not> ipv6only \<lparr>IP = example_v4, Zone = ''''\<rparr>
        \<and> w' = 20000000"
    by (simp add: example_LookupIP)
next
  from example_Lookup_total [OF declared_labels_main ValidString_examples(1,5), of 2000000000 0]
  obtain result r' w' where
    L: "Lookup example_net main_resolver ''example.com'' ''8.8.8.8'' ''AAAA'' 2000000000 0 = Inr (result, r', w')"
    by blast
  have ips: "IPs result = [\<lparr>IP = example_v6, Zone = ''''\<rparr>]"
    using Lookup_InrD(6) [OF L] by (simp add: lookup_switch_def example_LookupIP)
  have "(\<forall>a \<in> set (IPs result). ipv6only a \<and> \<not> ipv4only a)
        \<and> w' = snd (LookupIP example_net (custom_resolver ''8.8.8.8'') 2000000000 ''ip6'' ''example.com'' 0)"
    using Lookup_address_family [OF L] by (simp add: example_LookupIP To4_example_v6 length_example_v6)
  with ips L show "\<exists>result r' w'. Lookup example_net main_resolver ''example.com'' ''8.8.8.8'' ''AAAA'' 2000000000 0
        = Inr (result, r', w') \<and> IPs result = [\<lparr>IP = example_v6, Zone = ''''\<rparr>]
        \<and> ipv6only \<lparr>IP = example_v6, Zone = ''''\<rparr> \<and> \<not> ipv4only \<lparr>IP = example_v6, Zone = ''''\<rparr>
        \<and> w' = 25000000"
    by (simp add: example_LookupIP)
next
  from example_Lookup_total [OF declared_labels_main ValidString_examples(1,6), of 2000000000 0]
  obtain result r' w' where
    L: "Lookup example_net main_resolver ''example.com'' ''8.8.8.8'' ''ANY'' 2000000000 0 = Inr (result, r', w')"
    by blast
  have "IPs result = fst (fst (LookupIPAddr example_net (custom_resolver ''8.8.8.8'') 2000000000 ''example.com'' 0))
        \<and> w' = snd (LookupIPAddr example_net (custom_resolver ''8.8.8.8'') 2000000000 ''example.com'' 0)"
    using Lookup_address_family [OF L] by simp
  with L show "\<exists>result r' w'. Lookup example_net main_resolver ''example.com'' ''8.8.8.8'' ''ANY'' 2000000000 0
        = Inr (result, r', w')
        \<and> IPs result = [\<lparr>IP = example_v4, Zone = ''''\<rparr>, \<lparr>IP = example_v6, Zone = ''''\<rparr>]
        \<and> w' = 30000000"
    by (simp add: example_LookupIPAddr)
qed

text \<open>
  C3. Over a sequence of metric updates with the same three labels, each with label
  values that the client accepts, every update returns, the \<^verbatim>\<open>status="success"\<close>
  counter grows by the number of successful results and the \<^verbatim>\<open>status="failure"\<close>
  counter by the number of failed ones (so each update increments exactly one of the
  two, by one), and their sum grows by the number of updates: from fresh counters it
  is N after N updates.
\<close>

theorem query_total_counts:
  assumes "declared_labels r"
    and "\<forall>result \<in> set results.
           FQDN result = fqdn \<and> RecordType result = recordType \<and> DNSServer result = dnsServer
           \<and> accepted env result"
  shows "\<exists>r'. record_all env r results = Inr r'
     \<and> counterValue (queryTotal r') [fqdn, recordType, dnsServer, ''success'']
         = counterValue (queryTotal r) [fqdn, recordType, dnsServer, ''success'']
           + length (filter Success results)
     \<and> counterValue (queryTotal r') [fqdn, recordType, dnsServer, ''failure'']
         = counterValue (queryTotal r) [fqdn, recordType, dnsServer, ''failure'']
           + length (filter (\<lambda>result. \<not> Success result) results)
     \<and> counterValue (queryTotal r') [fqdn, recordType, dnsServer, ''success'']
         + counterValue (queryTotal r') [fqdn, recordType, dnsServer, ''failure'']
         = counterValue (queryTotal r) [fqdn, recordType, dnsServer, ''success'']
           + counterValue (queryTotal r) [fqdn, recordType, dnsServer, ''failure'']
           + length results"
proof -
  have same: "\<forall>result \<in> set results.
      series_key result = [fqdn, recordType, dnsServer] \<and> accepted env result"
    using assms(2) by (simp add: series_key_def)
  from record_all_counts [OF assms(1) same] obtain r' where
    r': "record_all env r results = Inr r'"
    "counterValue (queryTotal r') [fqdn, recordType, dnsServer, ''success'']
         = counterValue (queryTotal r) [fqdn, recordType, dnsServer, ''success'']
           + length (filter Success results)"
    "counterValue (queryTotal r') [fqdn, recordType, dnsServer, ''failure'']
         = counterValue (queryTotal r) [fqdn, recordType, dnsServer, ''failure'']
           + length (filter (\<lambda>result. \<not> Success result) results)"
    by auto
  have "length (filter Success results) + length (filter (\<lambda>result. \<not> Success result) results)
        = length results"
    by (rule sum_length_filter_compl)
  with r' show ?thesis by (intro exI [of _ r']) simp
qed

theorem query_total_counts_witness:
  "\<exists>r'. record_all example_net main_resolver [ok_result, failed_result, ok_result] = Inr r'
     \<and> counterValue (queryTotal r') [''example.com'', ''A'', ''8.8.8.8'', ''success''] = 2
     \<and> counterValue (queryTotal r') [''example.com'', ''A'', ''8.8.8.8'', ''failure''] = 1
     \<and> counterValue (queryTotal r') [''example.com'', ''A'', ''8.8.8.8'', ''success'']
         + counterValue (queryTotal r') [''example.com'', ''A'', ''8.8.8.8'', ''failure''] = 3"
proof -
  have same: "\<forall>result \<in> set [ok_result, failed_result, ok_result].
      FQDN result = ''example.com'' \<and> RecordType result = ''A'' \<and> DNSServer result = ''8.8.8.8''
      \<and> accepted example_net result"
    using example_accepted by (simp add: ok_result_def failed_result_def)
  have n: "length (filter Success [ok_result, failed_result, ok_result]) = 2"
    "length (filter (\<lambda>result. \<not> Success result) [ok_result, failed_result, ok_result]) = 1"
    by (simp_all add: ok_result_def failed_result_def)
  from query_total_counts [OF declared_labels_main same] obtain r' where
    "record_all example_net main_resolver [ok_result, failed_result, ok_result] = Inr r'"
    "counterValue (queryTotal r') [''example.com'', ''A'', ''8.8.8.8'', ''success''] = 2"
    "counterValue (queryTotal r') [''example.com'', ''A'', ''8.8.8.8'', ''failure''] = 1"
    unfolding n counterValue_main by auto
  then show ?thesis by (intro exI [of _ r']) simp
qed

text \<open>
  C4. After a non-empty sequence of metric updates with the same three labels, each
  with label values that the client accepts, the response-time series holds the
  duration of the last result divided by \<open>10\<^sup>9\<close> (nanoseconds to seconds) and the
  resolution-success series holds 1 if the last result succeeded and 0 otherwise,
  whatever came before.
\<close>

theorem last_write_wins:
  assumes "declared_labels r" and "results \<noteq> []"
    and "\<forall>result \<in> set results.
           FQDN result = fqdn \<and> RecordType result = recordType \<and> DNSServer result = dnsServer
           \<and> accepted env result"
  shows "\<exists>r'. record_all env r results = Inr r'
     \<and> series (responseTime r') [fqdn, recordType, dnsServer]
         = Some (real_of_int (Duration (last results)) / 1000000000)
     \<and> series (resolutionSuccess r') [fqdn, recordType, dnsServer]
         = Some (if Success (last results) then 1 else 0)"
proof -
  have same: "\<forall>result \<in> set results.
      series_key result = [fqdn, recordType, dnsServer] \<and> accepted env result"
    using assms(3) by (simp add: series_key_def)
  from record_all_last [OF assms(1,2) same] show ?thesis
    by (simp add: Seconds_def)
qed

theorem last_write_wins_witness:
  "\<exists>r'. record_all example_net main_resolver [ok_result, failed_result] = Inr r'
     \<and> series (responseTime r') [''example.com'', ''A'', ''8.8.8.8''] = Some 2
     \<and> series (resolutionSuccess r') [''example.com'', ''A'', ''8.8.8.8''] = Some 0"
proof -
  have same: "\<forall>result \<in> set [ok_result, failed_result].
      FQDN result = ''example.com'' \<and> RecordType result = ''A'' \<and> DNSServer result = ''8.8.8.8''
      \<and> accepted example_net result"
    using example_accepted by (simp add: ok_result_def failed_result_def)
  have ne: "[ok_result, failed_result] \<noteq> []" by simp
  have l: "real_of_int (Duration (last [ok_result, failed_result])) / 1000000000 = 2"
    "Success (last [ok_result, failed_result]) = False"
    by (simp_all add: failed_result_def)
  from last_write_wins [OF declared_labels_main ne same]
  show ?thesis unfolding l by simp
qed

text \<open>
  C5. One metric update of a result with label values that the client accepts sets
  the resolved-address-count series of the result's labels to the number of addresses
  when the result succeeded (0 for no addresses) and leaves the whole vector as it was
  when the result failed.
\<close>

theorem resolved_ip_count_update:
  assumes "declared_labels r" and "accepted env result"
  shows "\<exists>r'. updateMetrics env r result = Inr r'
     \<and> (Success result \<longrightarrow>
          series (resolvedIpCount r') [FQDN result, RecordType result, DNSServer result]
            = Some (real (length (IPs result))))
     \<and> (\<not> Success result \<longrightarrow> resolvedIpCount r' = resolvedIpCount r)"
proof -
  from updateMetrics_accepted [OF assms] obtain r' where
    r': "updateMetrics env r result = Inr r'"
    "if Success result
          then series (resolvedIpCount r') = (series (resolvedIpCount r))(series_key result \<mapsto> real (length (IPs result)))
          else resolvedIpCount r' = resolvedIpCount r"
    by blast
  show ?thesis
    using r' by (intro exI [of _ r']) (simp add: series_key_def split: if_splits)
qed

theorem resolved_ip_count_update_witness:
  "(\<exists>r'. updateMetrics example_net main_resolver ok_result = Inr r'
      \<and> series (resolvedIpCount r') [''example.com'', ''A'', ''8.8.8.8''] = Some 1)
   \<and> (\<exists>r'. updateMetrics example_net main_resolver failed_result = Inr r'
      \<and> resolvedIpCount r' = resolvedIpCount main_resolver)"
proof (intro conjI)
  have ok: "Success ok_result" "FQDN ok_result = ''example.com''" "RecordType ok_result = ''A''"
    "DNSServer ok_result = ''8.8.8.8''" "real (length (IPs ok_result)) = 1"
    by (simp_all add: ok_result_def)
  from resolved_ip_count_update [OF declared_labels_main example_accepted(1)]
  show "\<exists>r'. updateMetrics example_net main_resolver ok_result = Inr r'
      \<and> series (resolvedIpCount r') [''example.com'', ''A'', ''8.8.8.8''] = Some 1"
    unfolding ok(2-5) using ok(1) by simp
next
  have failed: "\<not> Success failed_result" by (simp add: failed_result_def)
  from resolved_ip_count_update [OF declared_labels_main example_accepted(2)]
  show "\<exists>r'. updateMetrics example_net main_resolver failed_result = Inr r'
      \<and> resolvedIpCount r' = resolvedIpCount main_resolver"
    using failed by simp
qed

text \<open>
  C6, as amended. \<open>Lookup\<close> does change the metric vectors that the \<open>Resolver\<close>
  holds: besides the network call, the effect of a completed call is exactly one
  \<open>updateMetrics\<close> of the result it returns. That update sets the response-time
  series of the call's own labels and leaves unchanged every series whose three labels
  differ from the call's; the returned result and world do not depend on the metrics
  state. The body of the monitoring loop changes the vectors only through its call of
  \<open>Lookup\<close>.
\<close>

theorem Lookup_updates_own_series_only:
  assumes "declared_labels r"
    and "Lookup env r fqdn dnsServer recordType timeout w = Inr (result, r', w')"
  shows "updateMetrics env r result = Inr r'
     \<and> series (responseTime r') [fqdn, recordType, dnsServer]
         = Some (real_of_int (Duration result) / 1000000000)
     \<and> (\<forall>k. take 3 k \<noteq> [fqdn, recordType, dnsServer] \<longrightarrow>
           series (responseTime r') k = series (responseTime r) k
           \<and> series (resolutionSuccess r') k = series (resolutionSuccess r) k
           \<and> series (resolvedIpCount r') k = series (resolvedIpCount r) k
           \<and> series (queryTotal r') k = series (queryTotal r) k
           \<and> series (resolvedIpAddress r') k = series (resolvedIpAddress r) k)
     \<and> (\<forall>r2. declared_labels r2 \<longrightarrow>
           (\<exists>r2'. Lookup env r2 fqdn dnsServer recordType timeout w = Inr (result, r2', w')))
     \<and> (\<forall>cfg target server rt st st'.
           resolve_one env cfg target server rt st = Inr st' \<longrightarrow>
           (\<exists>res. Lookup env (resolver st) (Target_FQDN target) (Address server) rt
                     (Timeout (Monitoring cfg)) (world st) = Inr (res, resolver st', world st')))"
proof -
  note D = Lookup_InrD [OF assms(2)]
  note e = updateMetrics_effect [OF assms(1) D(1)]
  have own: "series (responseTime r') [fqdn, recordType, dnsServer]
         = Some (real_of_int (Duration result) / 1000000000)"
    by (simp add: e(3) series_key_def D(3,4,5) Seconds_def)
  have frame: "\<forall>k. take 3 k \<noteq> [fqdn, recordType, dnsServer] \<longrightarrow>
           series (responseTime r') k = series (responseTime r) k
           \<and> series (resolutionSuccess r') k = series (resolutionSuccess r) k
           \<and> series (resolvedIpCount r') k = series (resolvedIpCount r) k
           \<and> series (queryTotal r') k = series (queryTotal r) k
           \<and> series (resolvedIpAddress r') k = series (resolvedIpAddress r) k"
    using updateMetrics_frame [OF assms(1) D(1)] unfolding D(3,4,5) by blast
  have indep: "\<forall>r2. declared_labels r2 \<longrightarrow>
           (\<exists>r2'. Lookup env r2 fqdn dnsServer recordType timeout w = Inr (result, r2', w'))"
    using Lookup_result_independent [OF assms(2,1)] by blast
  have loop: "\<forall>cfg target server rt st st'.
           resolve_one env cfg target server rt st = Inr st' \<longrightarrow>
           (\<exists>res. Lookup env (resolver st) (Target_FQDN target) (Address server) rt
                     (Timeout (Monitoring cfg)) (world st) = Inr (res, resolver st', world st'))"
    using resolve_one_InrD(1) by blast
  from D(1) own frame indep loop show ?thesis by blast
qed

theorem Lookup_updates_own_series_only_witness:
  "\<exists>result r' w' st'.
       Lookup example_net warm_resolver ''example.com'' ''8.8.8.8'' ''A'' 2000000000 0
         = Inr (result, r', w')
     \<and> updateMetrics example_net warm_resolver result = Inr r'
     \<and> series (responseTime r') [''example.com'', ''A'', ''8.8.8.8''] = Some (1 / 50)
     \<and> series (responseTime r') [''nxdomain-test.invalid'', ''A'', ''8.8.8.8''] = Some (1 / 200)
     \<and> series (resolutionSuccess r') [''nxdomain-test.invalid'', ''A'', ''8.8.8.8''] = Some 0
     \<and> series (queryTotal r') [''nxdomain-test.invalid'', ''A'', ''8.8.8.8'', ''failure''] = Some 1
     \<and> (\<exists>r2'. Lookup example_net main_resolver ''example.com'' ''8.8.8.8'' ''A'' 2000000000 0
              = Inr (result, r2', w'))
     \<and> resolve_one example_net example_cfg \<lparr>Target_FQDN = ''example.com'', RecordTypes = [''A'']\<rparr>
          \<lparr>Name = ''google'', Address = ''8.8.8.8''\<rparr> ''A'' example_start = Inr st'
     \<and> (\<exists>res. Lookup example_net main_resolver ''example.com'' ''8.8.8.8'' ''A'' 10000000000 0
              = Inr (res, resolver st', world st'))"
proof -
  from example_Lookup_total [OF declared_labels_warm ValidString_examples(1,4), of 2000000000 0]
  obtain result r' w' where
    L: "Lookup example_net warm_resolver ''example.com'' ''8.8.8.8'' ''A'' 2000000000 0 = Inr (result, r', w')"
    by blast
  let ?t = "\<lparr>Target_FQDN = ''example.com'', RecordTypes = [''A'']\<rparr>"
  let ?s = "\<lparr>Name = ''google'', Address = ''8.8.8.8''\<rparr>"
  have "declared_labels (resolver example_start)"
    by (simp add: example_start_simps declared_labels_main)
  from resolve_one_total [OF this, of ?t ?s "''A''" example_net example_cfg]
  obtain st' where R: "resolve_one example_net example_cfg ?t ?s ''A'' example_start = Inr st'"
    using ValidString_examples example_IPString_valid by auto
  note T = Lookup_updates_own_series_only [OF declared_labels_warm L]
  have dur: "Duration result = 20000000"
    using Lookup_InrD(2,9) [OF L] by (simp add: example_lookup_switch example_Now)
  from T have U: "updateMetrics example_net warm_resolver result = Inr r'"
    and own: "series (responseTime r') [''example.com'', ''A'', ''8.8.8.8''] = Some (1 / 50)"
    by (simp_all add: dur)
  from T have F: "\<forall>k. take 3 k \<noteq> [''example.com'', ''A'', ''8.8.8.8''] \<longrightarrow>
           series (responseTime r') k = series (responseTime warm_resolver) k
           \<and> series (resolutionSuccess r') k = series (resolutionSuccess warm_resolver) k
           \<and> series (resolvedIpCount r') k = series (resolvedIpCount warm_resolver) k
           \<and> series (queryTotal r') k = series (queryTotal warm_resolver) k
           \<and> series (resolvedIpAddress r') k = series (resolvedIpAddress warm_resolver) k"
    by (elim conjE)
  from T have I: "\<forall>r2. declared_labels r2 \<longrightarrow>
           (\<exists>r2'. Lookup example_net r2 ''example.com'' ''8.8.8.8'' ''A'' 2000000000 0 = Inr (result, r2', w'))"
    by (elim conjE)
  from T have S: "\<forall>cfg target server rt st st'.
           resolve_one example_net cfg target server rt st = Inr st' \<longrightarrow>
           (\<exists>res. Lookup example_net (resolver st) (Target_FQDN target) (Address server) rt
                     (Timeout (Monitoring cfg)) (world st) = Inr (res, resolver st', world st'))"
    by (elim conjE)
  have f1: "series (responseTime r') [''nxdomain-test.invalid'', ''A'', ''8.8.8.8''] = Some (1 / 200)"
    using F [rule_format, of "[''nxdomain-test.invalid'', ''A'', ''8.8.8.8'']"]
    by (simp add: warm_resolver_def)
  have f2: "series (resolutionSuccess r') [''nxdomain-test.invalid'', ''A'', ''8.8.8.8''] = Some 0"
    using F [rule_format, of "[''nxdomain-test.invalid'', ''A'', ''8.8.8.8'']"]
    by (simp add: warm_resolver_def)
  have f3: "series (queryTotal r') [''nxdomain-test.invalid'', ''A'', ''8.8.8.8'', ''failure''] = Some 1"
    using F [rule_format, of "[''nxdomain-test.invalid'', ''A'', ''8.8.8.8'', ''failure'']"]
    by (simp add: warm_resolver_def)
  have i: "\<exists>r2'. Lookup example_net main_resolver ''example.com'' ''8.8.8.8'' ''A'' 2000000000 0
              = Inr (result, r2', w')"
    using I declared_labels_main by blast
  have s: "\<exists>res. Lookup example_net main_resolver ''example.com'' ''8.8.8.8'' ''A'' 10000000000 0
              = Inr (res, resolver st', world st')"
    using S [rule_format, OF R] by (simp add: example_start_simps example_cfg_simps)
  from L U own f1 f2 f3 i R s show ?thesis by blast
qed

text \<open>
  The statement that a lookup leaves every series unchanged fails: on the fresh
  vectors of \<^verbatim>\<open>main.go\<close>, one lookup creates the response-time series of its labels.
\<close>

theorem Lookup_changes_response_time:
  "\<not> isl (Lookup example_net main_resolver ''example.com'' ''8.8.8.8'' ''A'' 2000000000 0)
   \<and> series (responseTime (fst (snd (projr
        (Lookup example_net main_resolver ''example.com'' ''8.8.8.8'' ''A'' 2000000000 0)))))
        [''example.com'', ''A'', ''8.8.8.8''] = Some (1 / 50)
   \<and> series (responseTime main_resolver) [''example.com'', ''A'', ''8.8.8.8''] = None"
proof -
  from example_Lookup_total [OF declared_labels_main ValidString_examples(1,4), of 2000000000 0]
  obtain result r' w' where
    L: "Lookup example_net main_resolver ''example.com'' ''8.8.8.8'' ''A'' 2000000000 0 = Inr (result, r', w')"
    by blast
  note D = Lookup_InrD [OF L]
  have dur: "Duration result = 20000000"
    using D(2,9) by (simp add: example_lookup_switch example_Now)
  from updateMetrics_effect(3) [OF declared_labels_main D(1)]
  have "series (responseTime r') [''example.com'', ''A'', ''8.8.8.8''] = Some (1 / 50)"
    by (simp add: series_key_def D(3,4,5) dur Seconds_def)
  moreover have "series (responseTime main_resolver) [''example.com'', ''A'', ''8.8.8.8''] = None"
    by (simp add: main_resolver_def NewResolver_def dnsResponseTime_def NewGaugeVec_def)
  ultimately show ?thesis using L by simp
qed

text \<open>
  C7. One pass of the loop is the sequential handling of the triples in the order
  targets, servers, record types, each triple with its log line and its \<open>Lookup\<close>
  (resolution and metrics update) before the next. A completed pass writes the same
  lines whatever the state, so n passes write them n times in that order, and a pass
  completes when the configuration's strings are valid UTF-8. With two targets of
  distinct names, one server and one record type each, a completed pass consists of
  exactly two \<open>Lookup\<close> calls, the second starting from the vectors and world the
  first left, hence two metric updates with distinct \<^verbatim>\<open>fqdn\<close> labels and exactly two
  increments of the query counters.
\<close>

theorem tick_enumeration:
  "tick env cfg st = resolve_each env cfg (triples cfg) st
   \<and> (\<forall>st'. tick env cfg st = Inr st' \<longrightarrow> logged st' = logged st @ log_lines cfg)
   \<and> (\<forall>st'. monitoring env cfg n st = Inr st' \<longrightarrow>
         logged st' = logged st @ concat (replicate n (log_lines cfg)))
   \<and> (declared_labels (resolver st) \<and> valid_config cfg \<and> (\<forall>ip. ValidString (IPString env ip)) \<longrightarrow>
         (\<exists>st'. tick env cfg st = Inr st'))
   \<and> (\<forall>st'. declared_labels (resolver st) \<and> Targets cfg = [t1, t2] \<and> DNSServers cfg = [s]
         \<and> RecordTypes t1 = [rt1] \<and> RecordTypes t2 = [rt2] \<and> Target_FQDN t1 \<noteq> Target_FQDN t2
         \<and> tick env cfg st = Inr st' \<longrightarrow>
         (\<exists>result1 r1 w1 result2.
             Lookup env (resolver st) (Target_FQDN t1) (Address s) rt1 (Timeout (Monitoring cfg)) (world st)
               = Inr (result1, r1, w1)
           \<and> Lookup env r1 (Target_FQDN t2) (Address s) rt2 (Timeout (Monitoring cfg)) w1
               = Inr (result2, resolver st', world st')
           \<and> updateMetrics env (resolver st) result1 = Inr r1
           \<and> updateMetrics env r1 result2 = Inr (resolver st')
           \<and> FQDN result1 = Target_FQDN t1 \<and> FQDN result2 = Target_FQDN t2
           \<and> FQDN result1 \<noteq> FQDN result2
           \<and> logged st' = logged st @ [log_line t1 rt1 s, log_line t2 rt2 s]
           \<and> (\<forall>k. counterValue (queryTotal (resolver st')) k =
                 counterValue (queryTotal (resolver st)) k
                 + (if k = [Target_FQDN t1, rt1, Address s, status_of result1] then 1 else 0)
                 + (if k = [Target_FQDN t2, rt2, Address s, status_of result2] then 1 else 0))))"
proof (intro conjI allI impI)
  show "tick env cfg st = resolve_each env cfg (triples cfg) st"
    by (rule tick_each)
next
  fix st'
  assume "tick env cfg st = Inr st'"
  then show "logged st' = logged st @ log_lines cfg"
    by (rule tick_log)
next
  fix st'
  assume "monitoring env cfg n st = Inr st'"
  from iterations_log [OF monitoring_InrD(2) [OF this]]
  show "logged st' = logged st @ concat (replicate n (log_lines cfg))" .
next
  assume "declared_labels (resolver st) \<and> valid_config cfg \<and> (\<forall>ip. ValidString (IPString env ip))"
  then have "declared_labels (resolver st)" "valid_config cfg" "\<forall>ip. ValidString (IPString env ip)"
    by simp_all
  from tick_total [OF this] show "\<exists>st'. tick env cfg st = Inr st'"
    by blast
next
  fix st'
  assume a: "declared_labels (resolver st) \<and> Targets cfg = [t1, t2] \<and> DNSServers cfg = [s]
         \<and> RecordTypes t1 = [rt1] \<and> RecordTypes t2 = [rt2] \<and> Target_FQDN t1 \<noteq> Target_FQDN t2
         \<and> tick env cfg st = Inr st'"
  then have h: "declared_labels (resolver st)" "Targets cfg = [t1, t2]" "DNSServers cfg = [s]"
    "RecordTypes t1 = [rt1]" "RecordTypes t2 = [rt2]" "tick env cfg st = Inr st'"
    and ne: "Target_FQDN t1 \<noteq> Target_FQDN t2"
    by simp_all
  from tick_two_targets [OF h] obtain result1 r1 w1 result2 where
    f: "Lookup env (resolver st) (Target_FQDN t1) (Address s) rt1 (Timeout (Monitoring cfg)) (world st)
         = Inr (result1, r1, w1)"
    "Lookup env r1 (Target_FQDN t2) (Address s) rt2 (Timeout (Monitoring cfg)) w1
         = Inr (result2, resolver st', world st')"
    "updateMetrics env (resolver st) result1 = Inr r1"
    "updateMetrics env r1 result2 = Inr (resolver st')"
    "FQDN result1 = Target_FQDN t1" "FQDN result2 = Target_FQDN t2"
    "logged st' = logged st @ [log_line t1 rt1 s, log_line t2 rt2 s]"
    "\<forall>k. counterValue (queryTotal (resolver st')) k =
           counterValue (queryTotal (resolver st)) k
           + (if k = [Target_FQDN t1, rt1, Address s, status_of result1] then 1 else 0)
           + (if k = [Target_FQDN t2, rt2, Address s, status_of result2] then 1 else 0)"
    by blast
  have "FQDN result1 \<noteq> FQDN result2" using ne f(5,6) by simp
  with f show "\<exists>result1 r1 w1 result2.
             Lookup env (resolver st) (Target_FQDN t1) (Address s) rt1 (Timeout (Monitoring cfg)) (world st)
               = Inr (result1, r1, w1)
           \<and> Lookup env r1 (Target_FQDN t2) (Address s) rt2 (Timeout (Monitoring cfg)) w1
               = Inr (result2, resolver st', world st')
           \<and> updateMetrics env (resolver st) result1 = Inr r1
           \<and> updateMetrics env r1 result2 = Inr (resolver st')
           \<and> FQDN result1 = Target_FQDN t1 \<and> FQDN result2 = Target_FQDN t2
           \<and> FQDN result1 \<noteq> FQDN result2
           \<and> logged st' = logged st @ [log_line t1 rt1 s, log_line t2 rt2 s]
           \<and> (\<forall>k. counterValue (queryTotal (resolver st')) k =
                 counterValue (queryTotal (resolver st)) k
                 + (if k = [Target_FQDN t1, rt1, Address s, status_of result1] then 1 else 0)
                 + (if k = [Target_FQDN t2, rt2, Address s, status_of result2] then 1 else 0))"
    by blast
qed

theorem tick_enumeration_witness:
  "(\<exists>st'. tick example_net example_cfg example_start = Inr st'
      \<and> logged st' = [''Resolving example.com (A) via google (8.8.8.8)'',
                      ''Resolving nxdomain-test.invalid (A) via google (8.8.8.8)'']
      \<and> counterValue (queryTotal (resolver st')) [''example.com'', ''A'', ''8.8.8.8'', ''success''] = 1
      \<and> counterValue (queryTotal (resolver st')) [''nxdomain-test.invalid'', ''A'', ''8.8.8.8'', ''failure''] = 1
      \<and> (\<exists>result1 r1 w1 result2.
            Lookup example_net main_resolver ''example.com'' ''8.8.8.8'' ''A'' 10000000000 0
              = Inr (result1, r1, w1)
          \<and> Lookup example_net r1 ''nxdomain-test.invalid'' ''8.8.8.8'' ''A'' 10000000000 w1
              = Inr (result2, resolver st', world st')
          \<and> updateMetrics example_net main_resolver result1 = Inr r1
          \<and> updateMetrics example_net r1 result2 = Inr (resolver st')))
   \<and> (\<exists>st'. monitoring example_net example_cfg 2 example_start = Inr st'
      \<and> logged st' = [''Resolving example.com (A) via google (8.8.8.8)'',
                      ''Resolving nxdomain-test.invalid (A) via google (8.8.8.8)'',
                      ''Resolving example.com (A) via google (8.8.8.8)'',
                      ''Resolving nxdomain-test.invalid (A) via google (8.8.8.8)''])"
proof -
  let ?t1 = "\<lparr>Target_FQDN = ''example.com'', RecordTypes = [''A'']\<rparr>"
  let ?t2 = "\<lparr>Target_FQDN = ''nxdomain-test.invalid'', RecordTypes = [''A'']\<rparr>"
  let ?s = "\<lparr>Name = ''google'', Address = ''8.8.8.8''\<rparr>"
  note T = tick_enumeration [of example_net example_cfg example_start 2 ?t1 ?t2 ?s "''A''" "''A''"]
  have d: "declared_labels (resolver example_start)"
    by (simp add: example_start_simps declared_labels_main)
  have two: "concat (replicate 2 xs) = xs @ xs" for xs :: "string list"
    by (simp add: numeral_2_eq_2)
  from T have "declared_labels (resolver example_start) \<and> valid_config example_cfg
      \<and> (\<forall>ip. ValidString (IPString example_net ip)) \<longrightarrow>
      (\<exists>st'. tick example_net example_cfg example_start = Inr st')"
    by (elim conjE)
  with d example_valid_config(1) example_IPString_valid obtain st' where
    t: "tick example_net example_cfg example_start = Inr st'"
    by blast
  from T have "\<forall>st'. tick example_net example_cfg example_start = Inr st' \<longrightarrow>
      logged st' = logged example_start @ log_lines example_cfg"
    by (elim conjE)
  with t have l: "logged st' = [''Resolving example.com (A) via google (8.8.8.8)'',
                      ''Resolving nxdomain-test.invalid (A) via google (8.8.8.8)'']"
    by (simp add: example_start_simps example_log_lines)
  from T have "\<forall>st'. declared_labels (resolver example_start) \<and> Targets example_cfg = [?t1, ?t2]
         \<and> DNSServers example_cfg = [?s]
         \<and> RecordTypes ?t1 = [''A''] \<and> RecordTypes ?t2 = [''A''] \<and> Target_FQDN ?t1 \<noteq> Target_FQDN ?t2
         \<and> tick example_net example_cfg example_start = Inr st' \<longrightarrow>
         (\<exists>result1 r1 w1 result2.
             Lookup example_net (resolver example_start) (Target_FQDN ?t1) (Address ?s) ''A''
                (Timeout (Monitoring example_cfg)) (world example_start)
               = Inr (result1, r1, w1)
           \<and> Lookup example_net r1 (Target_FQDN ?t2) (Address ?s) ''A'' (Timeout (Monitoring example_cfg)) w1
               = Inr (result2, resolver st', world st')
           \<and> updateMetrics example_net (resolver example_start) result1 = Inr r1
           \<and> updateMetrics example_net r1 result2 = Inr (resolver st')
           \<and> FQDN result1 = Target_FQDN ?t1 \<and> FQDN result2 = Target_FQDN ?t2
           \<and> FQDN result1 \<noteq> FQDN result2
           \<and> logged st' = logged example_start @ [log_line ?t1 ''A'' ?s, log_line ?t2 ''A'' ?s]
           \<and> (\<forall>k. counterValue (queryTotal (resolver st')) k =
                 counterValue (queryTotal (resolver example_start)) k
                 + (if k = [Target_FQDN ?t1, ''A'', Address ?s, status_of result1] then 1 else 0)
                 + (if k = [Target_FQDN ?t2, ''A'', Address ?s, status_of result2] then 1 else 0)))"
    by (elim conjE)
  from this [rule_format, of st'] d t have
    look: "\<exists>result1 r1 w1 result2.
            Lookup example_net main_resolver ''example.com'' ''8.8.8.8'' ''A'' 10000000000 0
              = Inr (result1, r1, w1)
          \<and> Lookup example_net r1 ''nxdomain-test.invalid'' ''8.8.8.8'' ''A'' 10000000000 w1
              = Inr (result2, resolver st', world st')
          \<and> updateMetrics example_net main_resolver result1 = Inr r1
          \<and> updateMetrics example_net r1 result2 = Inr (resolver st')"
    by (simp add: example_cfg_simps example_start_simps) blast
  note p = example_pass [OF d example_cfg_simps(1,2) t]
  have c: "counterValue (queryTotal (resolver st')) [''example.com'', ''A'', ''8.8.8.8'', ''success''] = 1"
    "counterValue (queryTotal (resolver st')) [''nxdomain-test.invalid'', ''A'', ''8.8.8.8'', ''failure''] = 1"
    using p(2,3) by (simp_all add: example_start_simps counterValue_main)
  from monitoring_total [OF _ d example_valid_config(1) example_IPString_valid, of 2]
  obtain st2 where m: "monitoring example_net example_cfg 2 example_start = Inr st2"
    by (auto simp: example_cfg_simps)
  from T have "\<forall>st'. monitoring example_net example_cfg 2 example_start = Inr st' \<longrightarrow>
         logged st' = logged example_start @ concat (replicate 2 (log_lines example_cfg))"
    by (elim conjE)
  with m have l2: "logged st2 = [''Resolving example.com (A) via google (8.8.8.8)'',
                      ''Resolving nxdomain-test.invalid (A) via google (8.8.8.8)'',
                      ''Resolving example.com (A) via google (8.8.8.8)'',
                      ''Resolving nxdomain-test.invalid (A) via google (8.8.8.8)'']"
    by (simp add: example_start_simps two example_log_lines)
  from t l c look m l2 show ?thesis by blast
qed



text \<open>
  C9, as amended. With the vectors declared as in \<^verbatim>\<open>main.go\<close>, \<open>Lookup\<close> returns a
  result for every target, server and record type that are valid UTF-8 and every
  timeout (the library rendering addresses as valid UTF-8), and whenever the library
  call it makes reports an error, the result has \<open>Success = False\<close> and carries that
  error.
\<close>

theorem Lookup_never_raises:
  assumes "declared_labels r"
    and "ValidString fqdn" and "ValidString dnsServer" and "ValidString recordType"
    and "\<forall>ip. ValidString (IPString env ip)"
  shows "\<exists>result r' w'. Lookup env r fqdn dnsServer recordType timeout w = Inr (result, r', w')
     \<and> (\<forall>e. (recordType = ''A''
               \<and> snd (fst (LookupIP env (custom_resolver dnsServer) timeout ''ip4'' fqdn w)) = Some e)
            \<or> (recordType = ''AAAA''
               \<and> snd (fst (LookupIP env (custom_resolver dnsServer) timeout ''ip6'' fqdn w)) = Some e)
            \<or> (recordType \<noteq> ''A'' \<and> recordType \<noteq> ''AAAA''
               \<and> snd (fst (LookupIPAddr env (custom_resolver dnsServer) timeout fqdn w)) = Some e)
          \<longrightarrow> \<not> Success result \<and> Error result = Some e)"
proof -
  from Lookup_total [OF assms, of timeout w] obtain result r' w' where
    L: "Lookup env r fqdn dnsServer recordType timeout w = Inr (result, r', w')"
    by blast
  note D = Lookup_InrD [OF L]
  have "\<forall>e. (recordType = ''A''
               \<and> snd (fst (LookupIP env (custom_resolver dnsServer) timeout ''ip4'' fqdn w)) = Some e)
            \<or> (recordType = ''AAAA''
               \<and> snd (fst (LookupIP env (custom_resolver dnsServer) timeout ''ip6'' fqdn w)) = Some e)
            \<or> (recordType \<noteq> ''A'' \<and> recordType \<noteq> ''AAAA''
               \<and> snd (fst (LookupIPAddr env (custom_resolver dnsServer) timeout fqdn w)) = Some e)
          \<longrightarrow> \<not> Success result \<and> Error result = Some e"
    unfolding D(8) D(7)
    by (auto simp: lookup_switch_def split: prod.splits)
  with L show ?thesis by blast
qed

theorem Lookup_never_raises_witness:
  "\<exists>result r' w'. Lookup example_net main_resolver ''nxdomain-test.invalid'' ''8.8.8.8'' ''A'' 2000000000 0
       = Inr (result, r', w') \<and> \<not> Success result \<and> Error result = Some ''no such host''"
proof -
  from Lookup_never_raises [OF declared_labels_main ValidString_examples(2,3,4) example_IPString_valid,
      of 2000000000 0]
  obtain result r' w' where
    L: "Lookup example_net main_resolver ''nxdomain-test.invalid'' ''8.8.8.8'' ''A'' 2000000000 0
          = Inr (result, r', w')"
    and E: "\<forall>e. snd (fst (LookupIP example_net (custom_resolver ''8.8.8.8'') 2000000000 ''ip4''
                  ''nxdomain-test.invalid'' 0)) = Some e
              \<longrightarrow> \<not> Success result \<and> Error result = Some e"
    by auto
  from E have "\<not> Success result \<and> Error result = Some ''no such host''"
    by (simp add: example_LookupIP)
  with L show ?thesis by blast
qed

text \<open>
  Without the restriction the statement fails: for a target name that is not valid
  UTF-8 the metrics update panics and \<open>Lookup\<close> returns no result.
\<close>

theorem Lookup_raises_on_invalid_label:
  "Lookup example_net main_resolver [CHR 0xFF] ''8.8.8.8'' ''A'' 2000000000 0 = Inl InvalidLabelValue"
  by (rule Lookup_rejected [OF declared_labels_main]) (simp add: not_ValidString_examples)

text \<open>
  C10, as amended. For every record type other than \<^verbatim>\<open>"A"\<close> and \<^verbatim>\<open>"AAAA"\<close> the
  resolution is the dual-stack \<^verbatim>\<open>LookupIPAddr\<close>; when the record type and the other
  label values are valid UTF-8 the call returns, its result carries the addresses and
  the error of that resolution and fails only if that resolution does.
\<close>

theorem Lookup_default_dual_stack:
  assumes "recordType \<noteq> ''A''" and "recordType \<noteq> ''AAAA''"
  shows "lookup_switch env (custom_resolver dnsServer) timeout recordType fqdn w
           = LookupIPAddr env (custom_resolver dnsServer) timeout fqdn w
     \<and> (declared_labels r \<and> ValidString fqdn \<and> ValidString dnsServer \<and> ValidString recordType
          \<and> (\<forall>ip. ValidString (IPString env ip)) \<longrightarrow>
        (\<exists>result r'. Lookup env r fqdn dnsServer recordType timeout w
              = Inr (result, r', snd (LookupIPAddr env (custom_resolver dnsServer) timeout fqdn w))
           \<and> IPs result = fst (fst (LookupIPAddr env (custom_resolver dnsServer) timeout fqdn w))
           \<and> Error result = snd (fst (LookupIPAddr env (custom_resolver dnsServer) timeout fqdn w))
           \<and> Success result
               = (snd (fst (LookupIPAddr env (custom_resolver dnsServer) timeout fqdn w)) = None)))"
proof (intro conjI impI)
  show sw: "lookup_switch env (custom_resolver dnsServer) timeout recordType fqdn w
            = LookupIPAddr env (custom_resolver dnsServer) timeout fqdn w"
    using assms by (simp add: lookup_switch_def)
  assume a: "declared_labels r \<and> ValidString fqdn \<and> ValidString dnsServer \<and> ValidString recordType
          \<and> (\<forall>ip. ValidString (IPString env ip))"
  then have "declared_labels r" "ValidString fqdn" "ValidString dnsServer" "ValidString recordType"
    "\<forall>ip. ValidString (IPString env ip)"
    by simp_all
  from Lookup_total [OF this, of timeout w] obtain result r' w' where
    L: "Lookup env r fqdn dnsServer recordType timeout w = Inr (result, r', w')"
    by blast
  note D = Lookup_InrD [OF L]
  show "\<exists>result r'. Lookup env r fqdn dnsServer recordType timeout w
              = Inr (result, r', snd (LookupIPAddr env (custom_resolver dnsServer) timeout fqdn w))
           \<and> IPs result = fst (fst (LookupIPAddr env (custom_resolver dnsServer) timeout fqdn w))
           \<and> Error result = snd (fst (LookupIPAddr env (custom_resolver dnsServer) timeout fqdn w))
           \<and> Success result
               = (snd (fst (LookupIPAddr env (custom_resolver dnsServer) timeout fqdn w)) = None)"
    using L D(2,6,7,8) unfolding sw by (intro exI [of _ result] exI [of _ r']) simp
qed

theorem Lookup_default_dual_stack_witness:
  "(\<exists>result r'. Lookup example_net main_resolver ''example.com'' ''8.8.8.8'' ''ANY'' 2000000000 0
        = Inr (result, r', 30000000)
      \<and> IPs result = [\<lparr>IP = example_v4, Zone = ''''\<rparr>, \<lparr>IP = example_v6, Zone = ''''\<rparr>]
      \<and> Error result = None \<and> Success result)
   \<and> (\<exists>result r'. Lookup example_net main_resolver ''example.com'' ''8.8.8.8'' '''' 2000000000 0
        = Inr (result, r', 30000000)
      \<and> IPs result = [\<lparr>IP = example_v4, Zone = ''''\<rparr>, \<lparr>IP = example_v6, Zone = ''''\<rparr>]
      \<and> Error result = None \<and> Success result)
   \<and> (\<exists>result r'. Lookup example_net main_resolver ''example.com'' ''8.8.8.8'' ''MX'' 2000000000 0
        = Inr (result, r', 30000000)
      \<and> IPs result = [\<lparr>IP = example_v4, Zone = ''''\<rparr>, \<lparr>IP = example_v6, Zone = ''''\<rparr>]
      \<and> Error result = None \<and> Success result)"
proof -
  have any: "''ANY'' \<noteq> ''A''" "''ANY'' \<noteq> ''AAAA''"
    and empty: "'''' \<noteq> ''A''" "'''' \<noteq> ''AAAA''"
    and mx: "''MX'' \<noteq> ''A''" "''MX'' \<noteq> ''AAAA''"
    by simp_all
  show ?thesis
    using Lookup_default_dual_stack [OF any,
        of example_net "''8.8.8.8''" 2000000000 "''example.com''" 0 main_resolver]
      Lookup_default_dual_stack [OF empty,
        of example_net "''8.8.8.8''" 2000000000 "''example.com''" 0 main_resolver]
      Lookup_default_dual_stack [OF mx,
        of example_net "''8.8.8.8''" 2000000000 "''example.com''" 0 main_resolver]
      declared_labels_main example_IPString_valid ValidString_examples
    unfolding example_LookupIPAddr by simp
qed

text \<open>
  Without the restriction the statement fails: a record type that is not valid
  UTF-8 takes the default branch and is then refused as a label value.
\<close>

theorem Lookup_rejects_invalid_recordType:
  "[CHR ''A'', CHR 0xFF] \<noteq> ''A'' \<and> [CHR ''A'', CHR 0xFF] \<noteq> ''AAAA''
   \<and> Lookup example_net main_resolver ''example.com'' ''8.8.8.8'' [CHR ''A'', CHR 0xFF] 2000000000 0
       = Inl InvalidLabelValue"
proof -
  have "Lookup example_net main_resolver ''example.com'' ''8.8.8.8'' [CHR ''A'', CHR 0xFF] 2000000000 0
       = Inl InvalidLabelValue"
    by (rule Lookup_rejected [OF declared_labels_main]) (simp add: not_ValidString_examples)
  then show ?thesis by simp
qed

end
